theory Spec2Isabelle
  imports Complex_Main "HOL-Library.Sublist"
begin

section \<open>Strings\<close>

text \<open>
  A JavaScript string is modelled as a list of 8-bit characters, read as the code units
  U+0000 to U+00FF.  Numbers are modelled as reals: the arithmetic below is the exact
  arithmetic the floating-point code approximates, and NaN and the infinities are not
  values of the model.
\<close>

text \<open>The characters of that range which the regular expression \<open>\s\<close> matches.\<close>

definition isWhitespace :: "char \<Rightarrow> bool" where
  "isWhitespace c = (of_char c \<in> {9, 10, 11, 12, 13, 32, 160 :: nat})"

text \<open>
  \<open>String.prototype.toLowerCase\<close> on that range: the letters A to Z and the Latin-1
  capitals U+00C0 to U+00DE (the multiplication sign U+00D7 apart) gain bit 5.
\<close>

definition toLowerChar :: "char \<Rightarrow> char" where
  "toLowerChar c =
     (let n = (of_char c :: nat) in
      if (65 \<le> n \<and> n \<le> 90) \<or> (192 \<le> n \<and> n \<le> 222 \<and> n \<noteq> 215)
      then (case c of Char b0 b1 b2 b3 b4 b5 b6 b7 \<Rightarrow> Char b0 b1 b2 b3 b4 True b6 b7)
      else c)"

definition toLowerCase :: "string \<Rightarrow> string" where
  "toLowerCase s = map toLowerChar s"

text \<open>
  \<open>s.split(/\s+/)\<close>: the pieces between maximal runs of whitespace.  A string that starts
  (ends) with whitespace yields an empty first (last) piece, and the empty string yields
  the one piece \<open>''''\<close>.  The flag says that the previous character was whitespace.
\<close>

fun splitFrom :: "bool \<Rightarrow> string \<Rightarrow> string list" where
  "splitFrom b [] = [[]]"
| "splitFrom b (c # cs) =
     (if isWhitespace c then (if b then splitFrom True cs else [] # splitFrom True cs)
      else (case splitFrom False cs of w # ws \<Rightarrow> (c # w) # ws | [] \<Rightarrow> [[c]]))"

definition splitWs :: "string \<Rightarrow> string list" where
  "splitWs s = splitFrom False s"

text \<open>\<open>s.includes(kw)\<close>: \<open>kw\<close> occurs in \<open>s\<close> as a contiguous substring.\<close>

definition str_includes :: "string \<Rightarrow> string \<Rightarrow> bool" where
  "str_includes s kw = sublist kw s"

section \<open>Data model\<close>

datatype MemoryStore = STM | LTM

datatype MemoryClassification =
  Bugfix | Learning | Decision | Preference | Constraint | Procedural | Semantic | Episodic

datatype MemoryStatus = Active | Pinned | Decayed | Forgotten

text \<open>The classifications are string literals in the source; a tag can be one of them.\<close>

fun classificationName :: "MemoryClassification \<Rightarrow> string" where
  "classificationName Bugfix = ''bugfix''"
| "classificationName Learning = ''learning''"
| "classificationName Decision = ''decision''"
| "classificationName Preference = ''preference''"
| "classificationName Constraint = ''constraint''"
| "classificationName Procedural = ''procedural''"
| "classificationName Semantic = ''semantic''"
| "classificationName Episodic = ''episodic''"

text \<open>
  A memory unit.  The key is opaque in the source (a string drawn by the storage layer);
  the model uses natural numbers.  Times are milliseconds since the epoch.
\<close>

record MemoryUnit =
  unit_id :: nat
  sessionId :: "string option"
  store :: MemoryStore
  classification :: MemoryClassification
  summary :: string
  sourceEventIds :: "string list"
  projectScope :: "string option"
  status :: MemoryStatus
  strength :: real
  importance :: real
  utility :: real
  novelty :: real
  confidence :: real
  interference :: real
  frequency :: nat
  tags :: "string list"
  createdAt :: real

text \<open>A candidate, as the extractor supplies it; a signal is a pair (type, evidence).\<close>

record MemoryCandidate =
  c_classification :: MemoryClassification
  c_summary :: string
  c_sourceEventIds :: "string list"
  preliminaryImportance :: real
  c_confidence :: real
  importanceSignals :: "(string \<times> string) list"

record MemoryFeatureVector =
  f_recency :: real
  f_frequency :: nat
  f_importance :: real
  f_utility :: real
  f_novelty :: real
  f_confidence :: real
  f_interference :: real

record ScoringWeights =
  w_recency :: real
  w_frequency :: real
  w_importance :: real
  w_utility :: real
  w_novelty :: real
  w_confidence :: real
  w_interference :: real

text \<open>
  The fields of the configuration that the engine and the retrieval layer read.  Its
  declaration and its default value are not among the sources, so it is a parameter
  everywhere.
\<close>

record PsychMemConfig =
  scoringWeights :: ScoringWeights
  autoPromoteToLtm :: "MemoryClassification list"
  stmToLtmStrengthThreshold :: real
  stmToLtmFrequencyThreshold :: real
  defaultRetrievalLimit :: int

section \<open>Text similarity\<close>

text \<open>
  \<open>SelectiveMemory.calculateTextSimilarity\<close>: both strings are lower-cased and split; a
  \<open>Set\<close> is a duplicate-free list; no piece is left out, whatever its length.
\<close>

definition calculateTextSimilarity :: "string \<Rightarrow> string \<Rightarrow> real" where
  "calculateTextSimilarity a b =
     (let wordsA = remdups (splitWs (toLowerCase a));
          wordsB = remdups (splitWs (toLowerCase b));
          intersection = filter (\<lambda>x. x \<in> set wordsB) wordsA;
          union = remdups (wordsA @ wordsB)
      in real (length intersection) / real (length union))"

text \<open>
  \<open>MemoryRetrieval.jaccardSimilarity\<close>: the caller lower-cases; pieces of length at most 2
  are dropped; the result is 0 when either set is empty.
\<close>

definition jaccardSimilarity :: "string \<Rightarrow> string \<Rightarrow> real" where
  "jaccardSimilarity a b =
     (let wordsA = remdups (filter (\<lambda>w. length w > 2) (splitWs a));
          wordsB = remdups (filter (\<lambda>w. length w > 2) (splitWs b))
      in if length wordsA = 0 \<or> length wordsB = 0 then 0
         else (let intersection = filter (\<lambda>x. x \<in> set wordsB) wordsA;
                   union = remdups (wordsA @ wordsB)
               in real (length intersection) / real (length union)))"

section \<open>Strength scoring\<close>

text \<open>\<open>SelectiveMemory.calculateStrength\<close>, with the weights of the configuration.\<close>

definition calculateStrength :: "ScoringWeights \<Rightarrow> MemoryFeatureVector \<Rightarrow> real" where
  "calculateStrength w features =
     (let normalizedFrequency = min 1 (ln (real (f_frequency features) + 1) / ln 10);
          recencyFactor = 1 - min 1 (f_recency features / 168);
          strength =
            w_recency w * recencyFactor +
            w_frequency w * normalizedFrequency +
            w_importance w * f_importance features +
            w_utility w * f_utility features +
            w_novelty w * f_novelty features +
            w_confidence w * f_confidence features +
            w_interference w * f_interference features
      in max 0 (min 1 strength))"

subsection \<open>The scoring formula as the specification words it\<close>

definition clamp01 :: "real \<Rightarrow> real" where
  "clamp01 x = (if x < 0 then 0 else if 1 < x then 1 else x)"

definition spec_normalizedFrequency :: "nat \<Rightarrow> real" where
  "spec_normalizedFrequency n = min 1 (ln (real n + 1) / ln 10)"

definition spec_recencyFactor :: "real \<Rightarrow> real" where
  "spec_recencyFactor hours = 1 - min 1 (hours / 168)"

text \<open>The seven weights and the seven features they multiply, in one order.\<close>

definition weightList :: "ScoringWeights \<Rightarrow> real list" where
  "weightList w =
     [w_recency w, w_frequency w, w_importance w, w_utility w, w_novelty w,
      w_confidence w, w_interference w]"

definition featureList :: "MemoryFeatureVector \<Rightarrow> real list" where
  "featureList f =
     [spec_recencyFactor (f_recency f), spec_normalizedFrequency (f_frequency f),
      f_importance f, f_utility f, f_novelty f, f_confidence f, f_interference f]"

definition spec_strength :: "ScoringWeights \<Rightarrow> MemoryFeatureVector \<Rightarrow> real" where
  "spec_strength w f = clamp01 (sum_list (map2 (\<lambda>wi xi. wi * xi) (weightList w) (featureList f)))"

subsection \<open>Jaccard similarity as the specification words it\<close>

definition jaccardIndex :: "string set \<Rightarrow> string set \<Rightarrow> real" where
  "jaccardIndex A B = real (card (A \<inter> B)) / real (card (A \<union> B))"

text \<open>Case-folded, whitespace-tokenized words, those of length at most 2 excluded.\<close>

definition wordSet :: "string \<Rightarrow> string set" where
  "wordSet s = {w \<in> set (splitWs (toLowerCase s)). length w > 2}"

text \<open>The same without the exclusion: every piece of the split counts.\<close>

definition tokenSet :: "string \<Rightarrow> string set" where
  "tokenSet s = set (splitWs (toLowerCase s))"

section \<open>Storage layer\<close>

text \<open>
  Modelled from the spec: the class \<open>MemoryDatabase\<close> (storage/database.ts) is not among
  the sources; only its callers are.  Its operations follow the store contract of the
  specification: \<open>getTopMemories\<close> is strength-descending over the active and pinned
  units, decay multiplies the strength of every active unit by e^(-lambda * dt),
  \<open>begin\<close>/\<open>commit\<close>/\<open>rollback\<close> delimit a transaction, and every single call is atomic.
  What the specification leaves open is a parameter or a stated choice:
  \<^item> the strength \<open>createMemory\<close> gives a new unit is the field \<open>initialStrength\<close>, any
    function of the arguments of the call;
  \<^item> a new unit is active, has frequency 1 and interference 0;
  \<^item> \<open>promoteToLtm\<close>, \<open>updateMemoryStatus\<close>, \<open>updateMemoryStrength\<close> and
    \<open>incrementFrequency\<close> change the one field their name says;
  \<^item> the time since the previous decay is the argument \<open>dt\<close>, and the count
    \<open>applyDecay\<close> returns is the number of units it decayed;
  \<^item> \<open>endSession\<close> records the final status of the session.
\<close>

datatype SessionStatus = Completed | Abandoned

datatype error = StorageError

text \<open>The \<open>features\<close> argument of \<open>createMemory\<close>, as \<open>processCandidates\<close> builds it.\<close>

record CreateFeatures =
  cf_sessionId :: "string option"
  cf_projectScope :: "string option"
  cf_importance :: real
  cf_utility :: real
  cf_novelty :: real
  cf_confidence :: real
  cf_tags :: "string list"

text \<open>
  The store: the rows in insertion order, the sessions, the snapshot of an open
  transaction, and the two parameters of the engine.  The field \<open>faultIn\<close> injects one
  storage exception: \<open>Some n\<close> lets \<open>n\<close> more calls succeed and makes the next one throw;
  \<open>None\<close> is a store that does not fail.
\<close>

record db =
  memories :: "MemoryUnit list"
  sessions :: "string \<rightharpoonup> SessionStatus"
  txn :: "(MemoryUnit list \<times> (string \<rightharpoonup> SessionStatus)) option"
  faultIn :: "nat option"
  initialStrength :: "MemoryStore \<Rightarrow> MemoryClassification \<Rightarrow> string \<Rightarrow> CreateFeatures \<Rightarrow> real"
  decayRate :: real

text \<open>
  The outcome of a computation that calls the store: an exception with the store as it was
  left, or a result with the new store.
\<close>

type_synonym 'a outcome = "(error \<times> db) + ('a \<times> db)"

text \<open>One call of the store: it throws, changing nothing, when the fault is due.\<close>

definition call :: "(db \<Rightarrow> 'a \<times> db) \<Rightarrow> db \<Rightarrow> 'a outcome" where
  "call f d =
     (case faultIn d of
        None \<Rightarrow> Inr (f d)
      | Some 0 \<Rightarrow> Inl (StorageError, d\<lparr>faultIn := None\<rparr>)
      | Some (Suc n) \<Rightarrow> Inr (f (d\<lparr>faultIn := Some n\<rparr>)))"

text \<open>Sequencing: an exception of the first computation skips the second.\<close>

definition andThen :: "'a outcome \<Rightarrow> ('a \<Rightarrow> db \<Rightarrow> 'b outcome) \<Rightarrow> 'b outcome" where
  "andThen r k = (case r of Inl e \<Rightarrow> Inl e | Inr (a, d) \<Rightarrow> k a d)"

definition db_getMemory :: "nat \<Rightarrow> db \<Rightarrow> MemoryUnit option outcome" where
  "db_getMemory i = call (\<lambda>d. (find (\<lambda>m. unit_id m = i) (memories d), d))"

definition db_getMemoriesByStore :: "MemoryStore \<Rightarrow> db \<Rightarrow> MemoryUnit list outcome" where
  "db_getMemoriesByStore s = call (\<lambda>d. (filter (\<lambda>m. store m = s) (memories d), d))"

definition topMemories :: "nat \<Rightarrow> MemoryUnit list \<Rightarrow> MemoryUnit list" where
  "topMemories n ms =
     take n (sort_key (\<lambda>m. - strength m)
       (filter (\<lambda>m. status m = Active \<or> status m = Pinned) ms))"

definition db_getTopMemories :: "nat \<Rightarrow> db \<Rightarrow> MemoryUnit list outcome" where
  "db_getTopMemories n = call (\<lambda>d. (topMemories n (memories d), d))"

text \<open>A key that no row has.\<close>

definition freshId :: "MemoryUnit list \<Rightarrow> nat" where
  "freshId ms = Suc (fold max (map unit_id ms) 0)"

definition newUnit ::
  "db \<Rightarrow> real \<Rightarrow> MemoryStore \<Rightarrow> MemoryClassification \<Rightarrow> string \<Rightarrow> string list \<Rightarrow>
   CreateFeatures \<Rightarrow> MemoryUnit" where
  "newUnit d now st cl summ srcs features =
     \<lparr>unit_id = freshId (memories d),
      sessionId = cf_sessionId features,
      store = st,
      classification = cl,
      summary = summ,
      sourceEventIds = srcs,
      projectScope = cf_projectScope features,
      status = Active,
      strength = initialStrength d st cl summ features,
      importance = cf_importance features,
      utility = cf_utility features,
      novelty = cf_novelty features,
      confidence = cf_confidence features,
      interference = 0,
      frequency = 1,
      tags = cf_tags features,
      createdAt = now\<rparr>"

definition db_createMemory ::
  "real \<Rightarrow> MemoryStore \<Rightarrow> MemoryClassification \<Rightarrow> string \<Rightarrow> string list \<Rightarrow> CreateFeatures \<Rightarrow>
   db \<Rightarrow> MemoryUnit outcome" where
  "db_createMemory now st cl summ srcs features =
     call (\<lambda>d. (newUnit d now st cl summ srcs features,
                d\<lparr>memories := memories d @ [newUnit d now st cl summ srcs features]\<rparr>))"

text \<open>The rows with key \<open>i\<close> changed by \<open>f\<close>, the others kept.\<close>

definition updateUnit :: "nat \<Rightarrow> (MemoryUnit \<Rightarrow> MemoryUnit) \<Rightarrow> MemoryUnit list \<Rightarrow> MemoryUnit list" where
  "updateUnit i f ms = map (\<lambda>m. if unit_id m = i then f m else m) ms"

definition db_updateMemoryStrength :: "nat \<Rightarrow> real \<Rightarrow> db \<Rightarrow> unit outcome" where
  "db_updateMemoryStrength i x =
     call (\<lambda>d. ((), d\<lparr>memories := updateUnit i (\<lambda>m. m\<lparr>strength := x\<rparr>) (memories d)\<rparr>))"

definition db_updateMemoryStatus :: "nat \<Rightarrow> MemoryStatus \<Rightarrow> db \<Rightarrow> unit outcome" where
  "db_updateMemoryStatus i st =
     call (\<lambda>d. ((), d\<lparr>memories := updateUnit i (\<lambda>m. m\<lparr>status := st\<rparr>) (memories d)\<rparr>))"

definition db_promoteToLtm :: "nat \<Rightarrow> db \<Rightarrow> unit outcome" where
  "db_promoteToLtm i =
     call (\<lambda>d. ((), d\<lparr>memories := updateUnit i (\<lambda>m. m\<lparr>store := LTM\<rparr>) (memories d)\<rparr>))"

definition db_incrementFrequency :: "nat \<Rightarrow> db \<Rightarrow> unit outcome" where
  "db_incrementFrequency i =
     call (\<lambda>d. ((), d\<lparr>memories :=
       updateUnit i (\<lambda>m. m\<lparr>frequency := Suc (frequency m)\<rparr>) (memories d)\<rparr>))"

definition decayUnit :: "real \<Rightarrow> real \<Rightarrow> MemoryUnit \<Rightarrow> MemoryUnit" where
  "decayUnit lam dt m =
     (if status m = Active then m\<lparr>strength := strength m * exp (- lam * dt)\<rparr> else m)"

definition db_applyDecay :: "real \<Rightarrow> db \<Rightarrow> nat outcome" where
  "db_applyDecay dt =
     call (\<lambda>d. (length (filter (\<lambda>m. status m = Active) (memories d)),
                d\<lparr>memories := map (decayUnit (decayRate d) dt) (memories d)\<rparr>))"

definition db_endSession :: "string \<Rightarrow> SessionStatus \<Rightarrow> db \<Rightarrow> unit outcome" where
  "db_endSession sid st = call (\<lambda>d. ((), d\<lparr>sessions := (sessions d)(sid \<mapsto> st)\<rparr>))"

definition db_beginTransaction :: "db \<Rightarrow> unit outcome" where
  "db_beginTransaction = call (\<lambda>d. ((), d\<lparr>txn := Some (memories d, sessions d)\<rparr>))"

definition db_commitTransaction :: "db \<Rightarrow> unit outcome" where
  "db_commitTransaction = call (\<lambda>d. ((), d\<lparr>txn := None\<rparr>))"

definition db_rollbackTransaction :: "db \<Rightarrow> unit outcome" where
  "db_rollbackTransaction =
     call (\<lambda>d. ((), case txn d of
                      None \<Rightarrow> d
                    | Some (ms, ss) \<Rightarrow> d\<lparr>memories := ms, sessions := ss, txn := None\<rparr>))"

section \<open>The selective-memory engine\<close>

text \<open>
  \<open>SelectiveMemory\<close> of memory/selective-memory.ts.  A method that calls the store takes
  the store and returns an outcome; \<open>now\<close> is the reading of the clock.
\<close>

text \<open>The \<open>options\<close> argument of \<open>processCandidates\<close>; both fields are optional.\<close>

record ProcessOptions =
  o_sessionId :: "string option"
  o_projectScope :: "string option"

text \<open>JavaScript truthiness of an optional string: present and not empty.\<close>

definition truthy :: "string option \<Rightarrow> bool" where
  "truthy s = (case s of None \<Rightarrow> False | Some x \<Rightarrow> x \<noteq> [])"

text \<open>
  Modelled from the spec: \<open>isUserLevelClassification\<close> is imported from types/index.ts,
  which is not among the sources.  The comment at its call names the four user-level
  classifications, as the specification does.
\<close>

definition isUserLevelClassification :: "MemoryClassification \<Rightarrow> bool" where
  "isUserLevelClassification c =
     (c = Constraint \<or> c = Preference \<or> c = Learning \<or> c = Procedural)"

text \<open>\<open>extractTags\<close>: the classification, then each signal type not yet among the tags.\<close>

definition extractTags :: "MemoryCandidate \<Rightarrow> string list" where
  "extractTags candidate =
     fold (\<lambda>signal tgs. if fst signal \<in> set tgs then tgs else tgs @ [fst signal])
       (importanceSignals candidate) [classificationName (c_classification candidate)]"

text \<open>The loop of \<open>calculateNovelty\<close> over the memories it fetched.\<close>

definition noveltyAgainst :: "MemoryUnit list \<Rightarrow> MemoryCandidate \<Rightarrow> real" where
  "noveltyAgainst existingMemories candidate =
     (if length existingMemories = 0 then 1
      else 1 - fold (\<lambda>mem maxSimilarity.
               max maxSimilarity (calculateTextSimilarity (c_summary candidate) (summary mem)))
             existingMemories 0)"

definition calculateNovelty :: "MemoryCandidate \<Rightarrow> db \<Rightarrow> real outcome" where
  "calculateNovelty candidate d =
     andThen (db_getTopMemories 50 d)
       (\<lambda>existingMemories d1. Inr (noveltyAgainst existingMemories candidate, d1))"

text \<open>The loop of \<open>detectInterference\<close> over the memories it fetched.\<close>

definition interferenceAgainst :: "MemoryUnit list \<Rightarrow> MemoryCandidate \<Rightarrow> real" where
  "interferenceAgainst existingMemories candidate =
     fold (\<lambda>mem interf.
            (let topicSimilarity = calculateTextSimilarity (c_summary candidate) (summary mem)
             in if topicSimilarity > 0.3 \<and> topicSimilarity < 0.8
                then max interf (topicSimilarity * 0.5) else interf))
       existingMemories 0"

definition detectInterference :: "MemoryCandidate \<Rightarrow> db \<Rightarrow> real outcome" where
  "detectInterference candidate d =
     andThen (db_getTopMemories 50 d)
       (\<lambda>existingMemories d1. Inr (interferenceAgainst existingMemories candidate, d1))"

definition calculateFeatures :: "MemoryCandidate \<Rightarrow> db \<Rightarrow> MemoryFeatureVector outcome" where
  "calculateFeatures candidate d =
     andThen (calculateNovelty candidate d)
       (\<lambda>nov d1. Inr (\<lparr>f_recency = 0, f_frequency = 1,
                        f_importance = preliminaryImportance candidate,
                        f_utility = 0.5, f_novelty = nov,
                        f_confidence = c_confidence candidate,
                        f_interference = 0\<rparr>, d1))"

text \<open>The object \<open>processCandidates\<close> passes to \<open>createMemory\<close>.\<close>

definition createFeatures ::
  "ProcessOptions \<Rightarrow> MemoryCandidate \<Rightarrow> MemoryFeatureVector \<Rightarrow> CreateFeatures" where
  "createFeatures options candidate features =
     (let memoryProjectScope =
            (if isUserLevelClassification (c_classification candidate) then None
             else o_projectScope options)
      in \<lparr>cf_sessionId = (if truthy (o_sessionId options) then o_sessionId options else None),
          cf_projectScope = (if truthy memoryProjectScope then memoryProjectScope else None),
          cf_importance = preliminaryImportance candidate,
          cf_utility = 0.5,
          cf_novelty = f_novelty features,
          cf_confidence = c_confidence candidate,
          cf_tags = extractTags candidate\<rparr>)"

text \<open>The body of the loop of \<open>processCandidates\<close>, for one candidate.\<close>

definition processCandidate ::
  "PsychMemConfig \<Rightarrow> real \<Rightarrow> ProcessOptions \<Rightarrow> MemoryCandidate \<Rightarrow> db \<Rightarrow> MemoryUnit outcome" where
  "processCandidate cfg now options candidate d =
     (let shouldAutoPromote = c_classification candidate \<in> set (autoPromoteToLtm cfg);
          st = (if shouldAutoPromote then LTM else STM)
      in andThen (calculateFeatures candidate d) (\<lambda>features d1.
         let strength0 = calculateStrength (scoringWeights cfg) features
         in andThen (detectInterference candidate d1) (\<lambda>interf d2.
            andThen (db_createMemory now st (c_classification candidate) (c_summary candidate)
                       (c_sourceEventIds candidate) (createFeatures options candidate features) d2)
              (\<lambda>memory d3.
                 if interf > 0
                 then andThen (db_updateMemoryStrength (unit_id memory)
                                 (strength0 * (1 - interf * 0.2)) d3)
                        (\<lambda>u d4. Inr (memory, d4))
                 else Inr (memory, d3)))))"

fun processCandidates ::
  "PsychMemConfig \<Rightarrow> real \<Rightarrow> ProcessOptions \<Rightarrow> MemoryCandidate list \<Rightarrow> db \<Rightarrow>
   MemoryUnit list outcome" where
  "processCandidates cfg now options [] d = Inr ([], d)"
| "processCandidates cfg now options (candidate # rest) d =
     (case processCandidate cfg now options candidate d of
        Inl e \<Rightarrow> Inl e
      | Inr (memory, d1) \<Rightarrow>
          (case processCandidates cfg now options rest d1 of
             Inl e \<Rightarrow> Inl e
           | Inr (createdMemories, d2) \<Rightarrow> Inr (memory # createdMemories, d2)))"

subsection \<open>Consolidation\<close>

record ConsolidationResult =
  promoted :: "nat list"
  decayed :: "nat list"
  unchanged :: "nat list"

definition shouldPromoteToLtm :: "PsychMemConfig \<Rightarrow> MemoryUnit \<Rightarrow> bool" where
  "shouldPromoteToLtm cfg memory =
     (if classification memory \<in> set (autoPromoteToLtm cfg) then True
      else if strength memory \<ge> stmToLtmStrengthThreshold cfg then True
      else if real (frequency memory) \<ge> stmToLtmFrequencyThreshold cfg then True
      else False)"

text \<open>The loop of \<open>runConsolidation\<close> over the units it fetched, with the result so far.\<close>

fun consolidate ::
  "PsychMemConfig \<Rightarrow> MemoryUnit list \<Rightarrow> ConsolidationResult \<Rightarrow> db \<Rightarrow>
   ConsolidationResult outcome" where
  "consolidate cfg [] result d = Inr (result, d)"
| "consolidate cfg (mem # rest) result d =
     (if shouldPromoteToLtm cfg mem then
        (case db_promoteToLtm (unit_id mem) d of
           Inl e \<Rightarrow> Inl e
         | Inr (u, d1) \<Rightarrow>
             consolidate cfg rest (result\<lparr>promoted := promoted result @ [unit_id mem]\<rparr>) d1)
      else if strength mem < 0.1 then
        (case db_updateMemoryStatus (unit_id mem) Decayed d of
           Inl e \<Rightarrow> Inl e
         | Inr (u, d1) \<Rightarrow>
             consolidate cfg rest (result\<lparr>decayed := decayed result @ [unit_id mem]\<rparr>) d1)
      else consolidate cfg rest (result\<lparr>unchanged := unchanged result @ [unit_id mem]\<rparr>) d)"

definition runConsolidation :: "PsychMemConfig \<Rightarrow> db \<Rightarrow> ConsolidationResult outcome" where
  "runConsolidation cfg d =
     andThen (db_getMemoriesByStore STM d)
       (\<lambda>stmMemories d1.
          consolidate cfg stmMemories \<lparr>promoted = [], decayed = [], unchanged = []\<rparr> d1)"

subsection \<open>Reconsolidation\<close>

record Evidence =
  e_content :: string
  e_confidence :: real
  e_sourceEventId :: string

text \<open>An optional field of the result that the source leaves out is \<open>None\<close>.\<close>

record ReconsolidationResult =
  success :: bool
  updated :: "bool option"
  oldConfidence :: "real option"
  newConfidence :: "real option"
  conflict :: "bool option"
  reinforced :: "bool option"
  reason :: "string option"

definition reconsolidate :: "nat \<Rightarrow> Evidence \<Rightarrow> db \<Rightarrow> ReconsolidationResult outcome" where
  "reconsolidate memoryId newEvidence d =
     andThen (db_getMemory memoryId d) (\<lambda>found d1.
       case found of
         None \<Rightarrow>
           Inr (\<lparr>success = False, updated = None, oldConfidence = None, newConfidence = None,
                 conflict = None, reinforced = None, reason = Some ''Memory not found''\<rparr>, d1)
       | Some memory \<Rightarrow>
           if status memory = Pinned then
             Inr (\<lparr>success = False, updated = None, oldConfidence = None, newConfidence = None,
                   conflict = None, reinforced = None,
                   reason = Some ''Memory is pinned and cannot be reconsolidated''\<rparr>, d1)
           else
             (let similarity = calculateTextSimilarity (e_content newEvidence) (summary memory)
              in if similarity < 0.3 then
                   (let newConf = (confidence memory + e_confidence newEvidence) / 2 * 0.8;
                        updatedSummary =
                          summary memory @ '' [Updated: '' @ e_content newEvidence @ '']''
                    in Inr (\<lparr>success = True, updated = Some True,
                             oldConfidence = Some (confidence memory),
                             newConfidence = Some newConf,
                             conflict = Some True, reinforced = None, reason = None\<rparr>, d1))
                 else if similarity > 0.7 then
                   (let newConf = min 1 (confidence memory + e_confidence newEvidence * 0.1)
                    in andThen (db_incrementFrequency memoryId d1) (\<lambda>u d2.
                         Inr (\<lparr>success = True, updated = Some True,
                               oldConfidence = Some (confidence memory),
                               newConfidence = Some newConf,
                               conflict = Some False, reinforced = Some True,
                               reason = None\<rparr>, d2)))
                 else
                   Inr (\<lparr>success = True, updated = Some False, oldConfidence = None,
                         newConfidence = None, conflict = None, reinforced = None,
                         reason = Some ''No significant update needed''\<rparr>, d1)))"

subsection \<open>Decay and utility\<close>

record DecayResult =
  memoriesDecayed :: nat
  timestamp :: real

definition applyDecay :: "real \<Rightarrow> real \<Rightarrow> db \<Rightarrow> DecayResult outcome" where
  "applyDecay now dt d =
     andThen (db_applyDecay dt d)
       (\<lambda>decayedCount d1. Inr (\<lparr>memoriesDecayed = decayedCount, timestamp = now\<rparr>, d1))"

definition calculateRecency :: "real \<Rightarrow> real \<Rightarrow> real" where
  "calculateRecency now created = (now - created) / (1000 * 60 * 60)"

text \<open>The two locals of \<open>updateUtility\<close>: the new utility and the features built from it.\<close>

definition newUtility :: "MemoryUnit \<Rightarrow> bool \<Rightarrow> real" where
  "newUtility memory wasUsed =
     (let delta = (if wasUsed then 0.1 else - 0.05)
      in max 0 (min 1 (utility memory + delta)))"

definition utilityFeatures :: "real \<Rightarrow> MemoryUnit \<Rightarrow> bool \<Rightarrow> MemoryFeatureVector" where
  "utilityFeatures now memory wasUsed =
     \<lparr>f_recency = calculateRecency now (createdAt memory),
      f_frequency = frequency memory,
      f_importance = importance memory,
      f_utility = newUtility memory wasUsed,
      f_novelty = novelty memory,
      f_confidence = confidence memory,
      f_interference = interference memory\<rparr>"

definition updateUtility :: "PsychMemConfig \<Rightarrow> real \<Rightarrow> nat \<Rightarrow> bool \<Rightarrow> db \<Rightarrow> unit outcome" where
  "updateUtility cfg now memoryId wasUsed d =
     andThen (db_getMemory memoryId d) (\<lambda>found d1.
       case found of
         None \<Rightarrow> Inr ((), d1)
       | Some memory \<Rightarrow>
           (let newStrength =
                  calculateStrength (scoringWeights cfg) (utilityFeatures now memory wasUsed)
            in db_updateMemoryStrength memoryId newStrength d1))"

section \<open>The session-end hook\<close>

record SessionEndData =
  sed_reason :: string

record SessionEndResult =
  se_promoted :: nat
  se_decayed :: nat
  se_cleaned :: nat

definition cleanupDecayedMemories :: nat where
  "cleanupDecayedMemories = 0"

text \<open>The statements of the \<open>try\<close> block of \<open>SessionEndHook.process\<close>.\<close>

definition tryBlock ::
  "PsychMemConfig \<Rightarrow> real \<Rightarrow> real \<Rightarrow> string \<Rightarrow> SessionStatus \<Rightarrow> db \<Rightarrow>
   (DecayResult \<times> ConsolidationResult) outcome" where
  "tryBlock cfg now dt sid sessionStatus d =
     andThen (db_endSession sid sessionStatus d) (\<lambda>u d1.
     andThen (applyDecay now dt d1) (\<lambda>decayResult d2.
     andThen (runConsolidation cfg d2) (\<lambda>consolidationResult d3.
     andThen (db_commitTransaction d3) (\<lambda>u d4.
       Inr ((decayResult, consolidationResult), d4)))))"

text \<open>
  \<open>SessionEndHook.process\<close>: \<open>beginTransaction\<close>, the \<open>try\<close> block, and the \<open>catch\<close> that
  rolls back and throws the exception again.
\<close>

definition process ::
  "PsychMemConfig \<Rightarrow> real \<Rightarrow> real \<Rightarrow> string \<Rightarrow> SessionEndData \<Rightarrow> db \<Rightarrow> SessionEndResult outcome" where
  "process cfg now dt sid data d =
     (let sessionStatus = (if sed_reason data = ''abandoned'' then Abandoned else Completed)
      in case db_beginTransaction d of
           Inl e \<Rightarrow> Inl e
         | Inr (u, d0) \<Rightarrow>
             (case tryBlock cfg now dt sid sessionStatus d0 of
                Inl (err, df) \<Rightarrow>
                  (case db_rollbackTransaction df of
                     Inl e \<Rightarrow> Inl e
                   | Inr (u, dr) \<Rightarrow> Inl (err, dr))
              | Inr ((decayResult, consolidationResult), d4) \<Rightarrow>
                  Inr (\<lparr>se_promoted = length (promoted consolidationResult),
                        se_decayed = memoriesDecayed decayResult,
                        se_cleaned = cleanupDecayedMemories\<rparr>, d4)))"

section \<open>The retrieval layer\<close>

text \<open>
  \<open>MemoryRetrieval\<close>, in the version that ranks by query similarity first (the other
  version among the sources adds the similarity to the strength).
\<close>

record RetrievalFilters =
  rf_store :: "MemoryStore option"
  rf_classifications :: "MemoryClassification list option"
  rf_minStrength :: "real option"
  rf_tags :: "string list option"
  rf_since :: "real option"

record RetrievalQuery =
  q_query :: "string option"
  q_filters :: "RetrievalFilters option"
  q_limit :: "int option"

record RetrievalIndexItem =
  ii_id :: nat
  ii_summary :: string
  ii_classification :: MemoryClassification
  ii_store :: MemoryStore
  ii_strength :: real
  estimatedTokens :: nat
  relevanceScore :: real

definition calculateRelevance :: "real \<Rightarrow> MemoryUnit \<Rightarrow> string \<Rightarrow> real" where
  "calculateRelevance now memory query =
     (let queryLower = toLowerCase query;
          summaryLower = toLowerCase (summary memory);
          jaccardV = jaccardSimilarity summaryLower queryLower;
          queryKeywords = filter (\<lambda>w. length w > 2) (splitWs queryLower);
          keywordHits = length (filter (\<lambda>kw. str_includes summaryLower kw) queryKeywords);
          keywordScore =
            (if length queryKeywords > 0
             then real keywordHits / real (length queryKeywords) else 0);
          tagMatches =
            length (filter (\<lambda>tag. list_ex (\<lambda>trm. str_includes (toLowerCase tag) trm) queryKeywords)
                      (tags memory));
          tagScore = real tagMatches * 0.15;
          textSimilarity = jaccardV * 0.5 + keywordScore * 0.5;
          ageHours = (now - createdAt memory) / (1000 * 60 * 60);
          recencyBonus = max 0 (0.05 - ageHours / 2000);
          score = textSimilarity * 2.0 * (0.5 + strength memory * 0.5) + tagScore + recencyBonus
      in min 1 score)"

text \<open>
  \<open>rankByTextSimilarity\<close>: \<open>Array.prototype.sort\<close> is stable, and the comparator orders by
  descending score.
\<close>

definition rankByTextSimilarity :: "real \<Rightarrow> MemoryUnit list \<Rightarrow> string \<Rightarrow> MemoryUnit list" where
  "rankByTextSimilarity now mems query =
     (let scored = map (\<lambda>mem. (mem, calculateRelevance now mem query)) mems
      in map fst (sort_key (\<lambda>s. - snd s) scored))"

definition applyFilters :: "RetrievalFilters \<Rightarrow> MemoryUnit list \<Rightarrow> MemoryUnit list" where
  "applyFilters filters mems =
     (let m1 = (case rf_store filters of
                  None \<Rightarrow> mems
                | Some s \<Rightarrow> filter (\<lambda>m. store m = s) mems);
          m2 = (case rf_classifications filters of
                  None \<Rightarrow> m1
                | Some cs \<Rightarrow>
                    if length cs > 0 then filter (\<lambda>m. classification m \<in> set cs) m1 else m1);
          m3 = (case rf_minStrength filters of
                  None \<Rightarrow> m2
                | Some x \<Rightarrow> filter (\<lambda>m. strength m \<ge> x) m2);
          m4 = (case rf_tags filters of
                  None \<Rightarrow> m3
                | Some ts \<Rightarrow>
                    if length ts > 0
                    then filter (\<lambda>m. list_ex (\<lambda>tag. tag \<in> set (tags m)) ts) m3 else m3);
          m5 = (case rf_since filters of
                  None \<Rightarrow> m4
                | Some t \<Rightarrow> filter (\<lambda>m. createdAt m \<ge> t) m4)
      in m5)"

definition getFilteredMemories ::
  "RetrievalFilters option \<Rightarrow> int option \<Rightarrow> db \<Rightarrow> MemoryUnit list outcome" where
  "getFilteredMemories filters limit d =
     (case filters of
        None \<Rightarrow> db_getTopMemories (nat (case limit of None \<Rightarrow> 50 | Some l \<Rightarrow> l)) d
      | Some fs \<Rightarrow>
          andThen (db_getTopMemories (nat (case limit of None \<Rightarrow> 100 | Some l \<Rightarrow> l)) d)
            (\<lambda>mems d1. Inr (applyFilters fs mems, d1)))"

definition estimateTokens :: "string \<Rightarrow> nat" where
  "estimateTokens txt = nat \<lceil>real (length txt) / 4\<rceil>"

definition toIndexItem :: "real \<Rightarrow> string option \<Rightarrow> MemoryUnit \<Rightarrow> RetrievalIndexItem" where
  "toIndexItem now query memory =
     \<lparr>ii_id = unit_id memory,
      ii_summary = summary memory,
      ii_classification = classification memory,
      ii_store = store memory,
      ii_strength = strength memory,
      estimatedTokens = estimateTokens (summary memory),
      relevanceScore =
        (case query of
           None \<Rightarrow> strength memory
         | Some q \<Rightarrow> if q \<noteq> [] then calculateRelevance now memory q else strength memory)\<rparr>"

text \<open>\<open>xs.slice(0, n)\<close>: a negative \<open>n\<close> counts from the end.\<close>

definition slice0 :: "'a list \<Rightarrow> int \<Rightarrow> 'a list" where
  "slice0 xs n = (if n < 0 then take (nat (int (length xs) + n)) xs else take (nat n) xs)"

definition retrieveIndex ::
  "PsychMemConfig \<Rightarrow> real \<Rightarrow> RetrievalQuery \<Rightarrow> db \<Rightarrow> RetrievalIndexItem list outcome" where
  "retrieveIndex cfg now query d =
     (let limit = (case q_limit query of None \<Rightarrow> defaultRetrievalLimit cfg | Some l \<Rightarrow> l);
          poolSize = min 200 (max 50 (limit * 10))
      in andThen (getFilteredMemories (q_filters query) (Some poolSize) d) (\<lambda>mems d1.
           let ranked = (case q_query query of
                           None \<Rightarrow> mems
                         | Some q \<Rightarrow> if q \<noteq> [] then rankByTextSimilarity now mems q else mems)
           in Inr (map (toIndexItem now (q_query query)) (slice0 ranked limit), d1)))"

subsection \<open>The relevance formula as the specification words it\<close>

definition spec_keywords :: "string \<Rightarrow> string list" where
  "spec_keywords query = filter (\<lambda>w. length w > 2) (splitWs (toLowerCase query))"

definition spec_textSimilarity :: "string \<Rightarrow> string \<Rightarrow> real" where
  "spec_textSimilarity summ query =
     0.5 * jaccardIndex (wordSet summ) (wordSet query) +
     0.5 * (real (length (filter (\<lambda>kw. sublist kw (toLowerCase summ)) (spec_keywords query))) /
            real (length (spec_keywords query)))"

definition spec_tagBonus :: "string list \<Rightarrow> string \<Rightarrow> real" where
  "spec_tagBonus tgs query =
     0.15 * real (length (filter
       (\<lambda>tag. \<exists>kw \<in> set (spec_keywords query). sublist kw (toLowerCase tag)) tgs))"

definition spec_recencyBonus :: "real \<Rightarrow> real" where
  "spec_recencyBonus ageHours = max 0 (0.05 - ageHours / 2000)"

definition spec_relevance :: "real \<Rightarrow> MemoryUnit \<Rightarrow> string \<Rightarrow> real" where
  "spec_relevance now m query =
     clamp01 (spec_textSimilarity (summary m) query * 2.0 * (0.5 + strength m * 0.5) +
              spec_tagBonus (tags m) query +
              spec_recencyBonus ((now - createdAt m) / 3600000))"

subsection \<open>A query that matches nothing of a unit\<close>

text \<open>
  No keyword of the query occurs as a substring of the unit's lower-cased summary or of
  one of its lower-cased tags.
\<close>

definition unrelatedTo :: "MemoryUnit \<Rightarrow> string \<Rightarrow> bool" where
  "unrelatedTo m query =
     list_all (\<lambda>kw. \<not> sublist kw (toLowerCase (summary m)) \<and>
                    list_all (\<lambda>tag. \<not> sublist kw (toLowerCase tag)) (tags m))
       (spec_keywords query)"

section \<open>The consolidation rule as the specification words it\<close>

definition promotionCriteria :: "PsychMemConfig \<Rightarrow> MemoryUnit \<Rightarrow> bool" where
  "promotionCriteria cfg m =
     (classification m \<in> set (autoPromoteToLtm cfg) \<or>
      strength m \<ge> stmToLtmStrengthThreshold cfg \<or>
      real (frequency m) \<ge> stmToLtmFrequencyThreshold cfg)"

text \<open>What consolidation does to one row of the store.\<close>

definition consolidateUnit :: "PsychMemConfig \<Rightarrow> MemoryUnit \<Rightarrow> MemoryUnit" where
  "consolidateUnit cfg m =
     (if store m = STM then
        (if promotionCriteria cfg m then m\<lparr>store := LTM\<rparr>
         else if strength m < 0.1 then m\<lparr>status := Decayed\<rparr>
         else m)
      else m)"

text \<open>The three lists of keys it reports, each in the order of the rows.\<close>

definition consolidationOf :: "PsychMemConfig \<Rightarrow> MemoryUnit list \<Rightarrow> ConsolidationResult" where
  "consolidationOf cfg rows =
     \<lparr>promoted = map unit_id (filter (\<lambda>m. store m = STM \<and> promotionCriteria cfg m) rows),
      decayed = map unit_id
        (filter (\<lambda>m. store m = STM \<and> \<not> promotionCriteria cfg m \<and> strength m < 0.1) rows),
      unchanged = map unit_id
        (filter (\<lambda>m. store m = STM \<and> \<not> promotionCriteria cfg m \<and> \<not> strength m < 0.1) rows)\<rparr>"

section \<open>Intake of one candidate, written out\<close>

text \<open>
  The feature vector \<open>calculateFeatures\<close> returns on a store with the given rows, the
  unit \<open>createMemory\<close> is asked for, and the row that is in the store once the candidate
  has been processed.
\<close>

definition intakeFeatures :: "MemoryCandidate \<Rightarrow> MemoryUnit list \<Rightarrow> MemoryFeatureVector" where
  "intakeFeatures c rows =
     \<lparr>f_recency = 0, f_frequency = 1, f_importance = preliminaryImportance c,
      f_utility = 0.5, f_novelty = noveltyAgainst (topMemories 50 rows) c,
      f_confidence = c_confidence c, f_interference = 0\<rparr>"

definition createdUnit ::
  "PsychMemConfig \<Rightarrow> real \<Rightarrow> ProcessOptions \<Rightarrow> MemoryCandidate \<Rightarrow> db \<Rightarrow> MemoryUnit" where
  "createdUnit cfg now opts c d =
     newUnit d now (if c_classification c \<in> set (autoPromoteToLtm cfg) then LTM else STM)
       (c_classification c) (c_summary c) (c_sourceEventIds c)
       (createFeatures opts c (intakeFeatures c (memories d)))"

definition persistedUnit ::
  "PsychMemConfig \<Rightarrow> real \<Rightarrow> ProcessOptions \<Rightarrow> MemoryCandidate \<Rightarrow> db \<Rightarrow> MemoryUnit" where
  "persistedUnit cfg now opts c d =
     (if interferenceAgainst (topMemories 50 (memories d)) c > 0
      then (createdUnit cfg now opts c d)
             \<lparr>strength := calculateStrength (scoringWeights cfg) (intakeFeatures c (memories d)) *
                (1 - interferenceAgainst (topMemories 50 (memories d)) c * 0.2)\<rparr>
      else createdUnit cfg now opts c d)"

section \<open>Auxiliary definitions\<close>

text \<open>What a computation returned, if it returned.\<close>

definition returned :: "'a outcome \<Rightarrow> 'a option" where
  "returned r = (case r of Inl e \<Rightarrow> None | Inr (a, d) \<Rightarrow> Some a)"

text \<open>
  One step of the consolidation loop on the rows: the unit \<open>mem\<close> was read before the
  loop, and the row with its key is changed.
\<close>

definition promoteAct :: "PsychMemConfig \<Rightarrow> MemoryUnit \<Rightarrow> MemoryUnit \<Rightarrow> MemoryUnit" where
  "promoteAct cfg mem r =
     (if shouldPromoteToLtm cfg mem then r\<lparr>store := LTM\<rparr>
      else if strength mem < 0.1 then r\<lparr>status := Decayed\<rparr> else r)"

definition stepRows :: "PsychMemConfig \<Rightarrow> MemoryUnit \<Rightarrow> MemoryUnit list \<Rightarrow> MemoryUnit list" where
  "stepRows cfg mem rows = updateUnit (unit_id mem) (promoteAct cfg mem) rows"

definition actFrom :: "PsychMemConfig \<Rightarrow> MemoryUnit list \<Rightarrow> MemoryUnit \<Rightarrow> MemoryUnit" where
  "actFrom cfg ms r =
     (case find (\<lambda>m. unit_id m = unit_id r) ms of
        None \<Rightarrow> r
      | Some mem \<Rightarrow> promoteAct cfg mem r)"

section \<open>Example inputs\<close>

definition exampleWeights :: ScoringWeights where
  "exampleWeights =
     \<lparr>w_recency = 0.2, w_frequency = 0.1, w_importance = 0.3, w_utility = 0.1,
      w_novelty = 0.2, w_confidence = 0.2, w_interference = - 0.1\<rparr>"

definition exampleConfig :: PsychMemConfig where
  "exampleConfig =
     \<lparr>scoringWeights = exampleWeights,
      autoPromoteToLtm = [Bugfix, Learning, Decision],
      stmToLtmStrengthThreshold = 0.3,
      stmToLtmFrequencyThreshold = 3,
      defaultRetrievalLimit = 20\<rparr>"

definition emptyDb :: db where
  "emptyDb =
     \<lparr>memories = [], sessions = Map.empty, txn = None, faultIn = None,
      initialStrength = (\<lambda>st cl summ features. 0.5), decayRate = 0.05\<rparr>"

definition exampleUnit ::
  "nat \<Rightarrow> MemoryStore \<Rightarrow> MemoryClassification \<Rightarrow> string \<Rightarrow> real \<Rightarrow> string list \<Rightarrow> real \<Rightarrow>
   MemoryUnit" where
  "exampleUnit i st cl summ s tgs created =
     \<lparr>unit_id = i, sessionId = None, store = st, classification = cl, summary = summ,
      sourceEventIds = [], projectScope = None, status = Active, strength = s,
      importance = 0.5, utility = 0.5, novelty = 0.5, confidence = 0.5, interference = 0,
      frequency = 1, tags = tgs, createdAt = created\<rparr>"

definition noOptions :: ProcessOptions where
  "noOptions = \<lparr>o_sessionId = None, o_projectScope = None\<rparr>"

text \<open>The candidate of the specification's intake scenario.\<close>

definition tabsCandidate :: MemoryCandidate where
  "tabsCandidate =
     \<lparr>c_classification = Learning, c_summary = ''user prefers tabs over spaces'',
      c_sourceEventIds = [''evt-1''], preliminaryImportance = 0.8, c_confidence = 0.9,
      importanceSignals = []\<rparr>"

text \<open>A stored unit, and evidence that shares no word with its summary.\<close>

definition tabsUnit :: MemoryUnit where
  "tabsUnit = exampleUnit 1 LTM Learning ''user prefers tabs over spaces'' 0.6 [''learning''] 0"

definition tabsDb :: db where
  "tabsDb = emptyDb\<lparr>memories := [tabsUnit]\<rparr>"

text \<open>The same unit after eight more accesses.\<close>

definition frequentUnit :: MemoryUnit where
  "frequentUnit = tabsUnit\<lparr>frequency := 9\<rparr>"

definition frequentDb :: db where
  "frequentDb = emptyDb\<lparr>memories := [frequentUnit]\<rparr>"

definition dockerEvidence :: Evidence where
  "dockerEvidence =
     \<lparr>e_content = ''deploy pipeline requires docker'', e_confidence = 0.9,
      e_sourceEventId = ''evt-2''\<rparr>"

text \<open>A stored unit and a candidate on the same topic with other content.\<close>

definition catUnit :: MemoryUnit where
  "catUnit = exampleUnit 1 STM Semantic ''the cat is on'' 0.5 [''semantic''] 0"

definition catDb :: db where
  "catDb = emptyDb\<lparr>memories := [catUnit]\<rparr>"

definition dogCandidate :: MemoryCandidate where
  "dogCandidate =
     \<lparr>c_classification = Semantic, c_summary = ''the dog is on'',
      c_sourceEventIds = [''evt-3''], preliminaryImportance = 0.5, c_confidence = 0.5,
      importanceSignals = []\<rparr>"

text \<open>The two short-term units of the specification's consolidation scenario.\<close>

definition weakUnit :: MemoryUnit where
  "weakUnit = exampleUnit 1 STM Semantic ''build uses make'' 0.05 [''semantic''] 0"

definition strongUnit :: MemoryUnit where
  "strongUnit = exampleUnit 2 STM Semantic ''tests run in docker'' 0.5 [''semantic''] 0"

definition sessionDb :: db where
  "sessionDb = emptyDb\<lparr>memories := [weakUnit, strongUnit]\<rparr>"

definition sessionData :: SessionEndData where
  "sessionData = \<lparr>sed_reason = ''completed''\<rparr>"

text \<open>The query and the relevant unit of the specification's ranking scenario.\<close>

definition authSummary :: string where
  "authSummary = ''Fixed authentication bug in login flow''"

definition authQuery :: string where
  "authQuery = ''authentication bug''"

definition authIndexQuery :: RetrievalQuery where
  "authIndexQuery = \<lparr>q_query = Some authQuery, q_filters = None, q_limit = Some 5\<rparr>"

definition authUnit :: MemoryUnit where
  "authUnit = exampleUnit 1 LTM Decision authSummary 0.4 [''decision''] 0"

text \<open>A strong unit on another subject.\<close>

definition deployUnit :: MemoryUnit where
  "deployUnit =
     exampleUnit 2 LTM Decision ''Updated deployment pipeline configuration'' 0.9
       [''decision''] 0"

definition deployDb :: db where
  "deployDb = emptyDb\<lparr>memories := [authUnit, deployUnit]\<rparr>"

text \<open>
  A strong unit whose summary has no word of the query, but contains both keywords inside
  longer words, and whose tag contains one.
\<close>

definition debugUnit :: MemoryUnit where
  "debugUnit =
     exampleUnit 2 LTM Bugfix ''debugging reauthentication'' 0.9 [''bugfix''] 360000000"

definition debugDb :: db where
  "debugDb = emptyDb\<lparr>memories := [authUnit, debugUnit]\<rparr>"

section \<open>Properties of the scoring formula\<close>

lemma clamp01_max_min: "clamp01 x = max 0 (min 1 x)"
  by (simp add: clamp01_def max_def min_def)

text \<open>
  C5.  For every feature vector and weight set, the strength score is the clamp to [0,1]
  of the weighted sum over the seven features, where the frequency enters as
  min(1, ln(frequency+1)/ln 10), the recency as 1 - min(1, recencyHours/168), and
  importance, utility, novelty, confidence and interference enter unchanged.
\<close>

theorem calculateStrength_is_spec_strength:
  "calculateStrength w f = spec_strength w f"
  by (simp add: calculateStrength_def spec_strength_def clamp01_max_min weightList_def
      featureList_def spec_normalizedFrequency_def spec_recencyFactor_def Let_def add.assoc)

theorem calculateStrength_is_spec_strength_witness:
  "calculateStrength
     \<lparr>w_recency = 0.2, w_frequency = 0.1, w_importance = 0.3, w_utility = 0.1,
      w_novelty = 0.2, w_confidence = 0.2, w_interference = -0.1\<rparr>
     \<lparr>f_recency = 84, f_frequency = 9, f_importance = 0.5, f_utility = 0.5,
      f_novelty = 1, f_confidence = 0.5, f_interference = 0\<rparr> = 0.7"
  using calculateStrength_is_spec_strength
    [of "\<lparr>w_recency = 0.2, w_frequency = 0.1, w_importance = 0.3, w_utility = 0.1,
          w_novelty = 0.2, w_confidence = 0.2, w_interference = -0.1\<rparr>"
        "\<lparr>f_recency = 84, f_frequency = 9, f_importance = 0.5, f_utility = 0.5,
          f_novelty = 1, f_confidence = 0.5, f_interference = 0\<rparr>"]
  by (simp add: spec_strength_def clamp01_def weightList_def featureList_def
      spec_normalizedFrequency_def spec_recencyFactor_def)

section \<open>Evaluation of the examples\<close>

lemmas string_eval = splitWs_def isWhitespace_def toLowerCase_def toLowerChar_def

lemmas db_eval = call_def andThen_def db_getMemory_def db_getMemoriesByStore_def
  db_getTopMemories_def db_createMemory_def db_updateMemoryStrength_def
  db_updateMemoryStatus_def db_promoteToLtm_def db_incrementFrequency_def db_applyDecay_def
  db_endSession_def db_beginTransaction_def db_commitTransaction_def db_rollbackTransaction_def
  topMemories_def freshId_def newUnit_def updateUnit_def decayUnit_def

lemmas example_eval = exampleWeights_def exampleConfig_def emptyDb_def exampleUnit_def
  noOptions_def

section \<open>Text similarity over sets of words\<close>

lemma Int_empty_if: "A = {} \<or> B = {} \<Longrightarrow> A \<inter> B = {}"
  by auto

lemma length_remdups_append:
  "length (remdups (remdups xs @ remdups ys)) = card (set xs \<union> set ys)"
  by (simp add: card_set [symmetric] del: remdups_append2)

lemma length_filter_remdups:
  "length (filter (\<lambda>x. x \<in> set (remdups ys)) (remdups xs)) = card (set xs \<inter> set ys)"
proof -
  have "distinct (filter (\<lambda>x. x \<in> set ys) (remdups xs))"
    by simp
  then have "length (filter (\<lambda>x. x \<in> set ys) (remdups xs)) =
      card (set (filter (\<lambda>x. x \<in> set ys) (remdups xs)))"
    by (rule distinct_card [symmetric])
  also have "set (filter (\<lambda>x. x \<in> set ys) (remdups xs)) = set xs \<inter> set ys"
    by auto
  finally show ?thesis by simp
qed

lemma calculateTextSimilarity_tokenSet:
  "calculateTextSimilarity a b = jaccardIndex (tokenSet a) (tokenSet b)"
  unfolding calculateTextSimilarity_def jaccardIndex_def tokenSet_def Let_def
  by (simp only: length_filter_remdups length_remdups_append)

lemma wordSet_filter:
  "wordSet s = set (filter (\<lambda>w. length w > 2) (splitWs (toLowerCase s)))"
  by (auto simp: wordSet_def)

lemma jaccardSimilarity_wordSet:
  "jaccardSimilarity (toLowerCase a) (toLowerCase b) = jaccardIndex (wordSet a) (wordSet b)"
proof -
  let ?xs = "filter (\<lambda>w. length w > 2) (splitWs (toLowerCase a))"
  let ?ys = "filter (\<lambda>w. length w > 2) (splitWs (toLowerCase b))"
  show ?thesis
  proof (cases "?xs = [] \<or> ?ys = []")
    case True
    then have "set ?xs = {} \<or> set ?ys = {}" by (simp only: set_empty)
    then have "set ?xs \<inter> set ?ys = {}" by (rule Int_empty_if)
    then have "jaccardIndex (wordSet a) (wordSet b) = 0"
      by (simp only: wordSet_filter jaccardIndex_def) simp
    moreover from True have "jaccardSimilarity (toLowerCase a) (toLowerCase b) = 0"
      by (auto simp: jaccardSimilarity_def Let_def)
    ultimately show ?thesis by simp
  next
    case False
    then have "jaccardSimilarity (toLowerCase a) (toLowerCase b) =
        real (length (filter (\<lambda>x. x \<in> set (remdups ?ys)) (remdups ?xs))) /
        real (length (remdups (remdups ?xs @ remdups ?ys)))"
      by (simp add: jaccardSimilarity_def Let_def del: remdups_append2 remdups_filter)
    also have "\<dots> = jaccardIndex (wordSet a) (wordSet b)"
      by (simp only: length_filter_remdups length_remdups_append wordSet_filter jaccardIndex_def)
    finally show ?thesis .
  qed
qed

lemma cat_dog_similarity: "calculateTextSimilarity ''the cat is on'' ''the dog is on'' = 3 / 5"
  by (simp add: calculateTextSimilarity_def string_eval)

lemma cat_dog_jaccard:
  "jaccardSimilarity (toLowerCase ''the cat is on'') (toLowerCase ''the dog is on'') = 1 / 3"
  by (simp add: jaccardSimilarity_def string_eval)

text \<open>
  C8, as stated, fails: the similarity behind novelty, interference and reconsolidation
  (\<open>calculateTextSimilarity\<close>) is not the Jaccard index of the word sets without the words
  of length at most 2.  For "the cat is on" and "the dog is on" it is 3/5, and that index
  is 1/3.
\<close>

theorem calculateTextSimilarity_short_words_counterexample:
  "calculateTextSimilarity ''the cat is on'' ''the dog is on'' \<noteq>
   jaccardIndex (wordSet ''the cat is on'') (wordSet ''the dog is on'')"
  by (simp only: cat_dog_similarity jaccardSimilarity_wordSet [symmetric] cat_dog_jaccard)

text \<open>
  C8, amended.  The Jaccard similarity of the retrieval layer is computed over the
  case-folded, whitespace-tokenized word sets without the words of length at most 2; the
  one of the engine (novelty, interference, reconsolidation) is computed over the
  case-folded, whitespace-tokenized sets of all pieces, short and empty ones included.
\<close>

theorem similarity_word_sets:
  "jaccardSimilarity (toLowerCase a) (toLowerCase b) = jaccardIndex (wordSet a) (wordSet b) \<and>
   calculateTextSimilarity a b = jaccardIndex (tokenSet a) (tokenSet b)"
  by (simp only: jaccardSimilarity_wordSet calculateTextSimilarity_tokenSet)

theorem similarity_word_sets_witness:
  "jaccardIndex (wordSet ''the cat is on'') (wordSet ''the dog is on'') = 1 / 3 \<and>
   jaccardIndex (tokenSet ''the cat is on'') (tokenSet ''the dog is on'') = 3 / 5"
  using similarity_word_sets [of "''the cat is on''" "''the dog is on''"]
  by (simp only: cat_dog_similarity cat_dog_jaccard)

section \<open>Calls of the store\<close>

lemma call_noFault: "faultIn d = None \<Longrightarrow> call f d = Inr (f d)"
  by (simp add: call_def)

lemma call_Inl_D: "call f d = Inl (e, d') \<Longrightarrow> d' = d\<lparr>faultIn := None\<rparr>"
  by (auto simp: call_def split: option.splits nat.splits)

lemma call_Inr_D: "call f d = Inr r \<Longrightarrow> \<exists>k. r = f (d\<lparr>faultIn := k\<rparr>)"
proof (cases "faultIn d")
  case None
  assume "call f d = Inr r"
  with None have "r = f d" by (simp add: call_def)
  moreover from None have "d\<lparr>faultIn := None\<rparr> = d" by (cases d) simp
  ultimately show ?thesis by metis
next
  case (Some n)
  assume "call f d = Inr r"
  with Some show ?thesis by (cases n) (auto simp: call_def)
qed

lemma andThen_Inr: "andThen (Inr (a, d)) k = k a d"
  by (simp add: andThen_def)

lemma andThen_Inr_D:
  "andThen r k = Inr (b, d') \<Longrightarrow> \<exists>a d1. r = Inr (a, d1) \<and> k a d1 = Inr (b, d')"
  by (auto simp: andThen_def split: sum.splits)

lemma andThen_Inl_D:
  "andThen r k = Inl (e, d') \<Longrightarrow>
   r = Inl (e, d') \<or> (\<exists>a d1. r = Inr (a, d1) \<and> k a d1 = Inl (e, d'))"
  by (auto simp: andThen_def split: sum.splits)

text \<open>What a call of the store has done when it returns.\<close>

lemma db_getMemory_Inr:
  "db_getMemory i d = Inr (found, d') \<Longrightarrow>
   found = find (\<lambda>m. unit_id m = i) (memories d) \<and> memories d' = memories d"
  by (auto simp: db_getMemory_def dest!: call_Inr_D)

lemma db_updateMemoryStrength_Inr:
  "db_updateMemoryStrength i x d = Inr (u, d') \<Longrightarrow>
   memories d' = updateUnit i (\<lambda>m. m\<lparr>strength := x\<rparr>) (memories d)"
  by (auto simp: db_updateMemoryStrength_def dest!: call_Inr_D)

lemma db_incrementFrequency_Inr:
  "db_incrementFrequency i d = Inr (u, d') \<Longrightarrow>
   memories d' = updateUnit i (\<lambda>m. m\<lparr>frequency := Suc (frequency m)\<rparr>) (memories d)"
  by (auto simp: db_incrementFrequency_def dest!: call_Inr_D)

lemma db_promoteToLtm_Inr:
  "db_promoteToLtm i d = Inr (u, d') \<Longrightarrow>
   memories d' = updateUnit i (\<lambda>m. m\<lparr>store := LTM\<rparr>) (memories d) \<and>
   sessions d' = sessions d \<and> txn d' = txn d \<and> decayRate d' = decayRate d"
  by (auto simp: db_promoteToLtm_def dest!: call_Inr_D)

lemma db_updateMemoryStatus_Inr:
  "db_updateMemoryStatus i st d = Inr (u, d') \<Longrightarrow>
   memories d' = updateUnit i (\<lambda>m. m\<lparr>status := st\<rparr>) (memories d) \<and>
   sessions d' = sessions d \<and> txn d' = txn d \<and> decayRate d' = decayRate d"
  by (auto simp: db_updateMemoryStatus_def dest!: call_Inr_D)

lemma db_getMemoriesByStore_Inr:
  "db_getMemoriesByStore s d = Inr (ms, d') \<Longrightarrow>
   ms = filter (\<lambda>m. store m = s) (memories d) \<and> memories d' = memories d \<and>
   sessions d' = sessions d \<and> txn d' = txn d \<and> decayRate d' = decayRate d"
  by (auto simp: db_getMemoriesByStore_def dest!: call_Inr_D)

lemma db_applyDecay_Inr:
  "db_applyDecay dt d = Inr (n, d') \<Longrightarrow>
   n = length (filter (\<lambda>m. status m = Active) (memories d)) \<and>
   memories d' = map (decayUnit (decayRate d) dt) (memories d) \<and>
   sessions d' = sessions d \<and> txn d' = txn d \<and> decayRate d' = decayRate d"
  by (auto simp: db_applyDecay_def dest!: call_Inr_D)

lemma db_endSession_Inr:
  "db_endSession sid st d = Inr (u, d') \<Longrightarrow>
   memories d' = memories d \<and> sessions d' = (sessions d)(sid \<mapsto> st) \<and> txn d' = txn d \<and>
   decayRate d' = decayRate d"
  by (auto simp: db_endSession_def dest!: call_Inr_D)

lemma db_beginTransaction_Inr:
  "db_beginTransaction d = Inr (u, d') \<Longrightarrow>
   memories d' = memories d \<and> sessions d' = sessions d \<and>
   txn d' = Some (memories d, sessions d) \<and> decayRate d' = decayRate d"
  by (auto simp: db_beginTransaction_def dest!: call_Inr_D)

lemma db_commitTransaction_Inr:
  "db_commitTransaction d = Inr (u, d') \<Longrightarrow>
   memories d' = memories d \<and> sessions d' = sessions d \<and> txn d' = None"
  by (auto simp: db_commitTransaction_def dest!: call_Inr_D)

section \<open>The relevance formula\<close>

lemma jaccardIndex_nonneg: "0 \<le> jaccardIndex A B"
  by (simp add: jaccardIndex_def)

lemma keywordScore_eq:
  "(if length kws > 0 then real (length (filter P kws)) / real (length kws) else 0) =
   real (length (filter P kws)) / real (length kws)"
  by simp

lemma textSimilarity_eq:
  "jaccardSimilarity (toLowerCase summ) (toLowerCase q) * 0.5 +
   (if length (filter (\<lambda>w. length w > 2) (splitWs (toLowerCase q))) > 0
    then real (length (filter (\<lambda>kw. str_includes (toLowerCase summ) kw)
                 (filter (\<lambda>w. length w > 2) (splitWs (toLowerCase q))))) /
         real (length (filter (\<lambda>w. length w > 2) (splitWs (toLowerCase q))))
    else 0) * 0.5 = spec_textSimilarity summ q"
  unfolding keywordScore_eq jaccardSimilarity_wordSet spec_textSimilarity_def spec_keywords_def
    str_includes_def
  by (simp only: mult.commute)

lemma tagScore_eq:
  "real (length (filter (\<lambda>tag. list_ex (\<lambda>trm. str_includes (toLowerCase tag) trm)
            (filter (\<lambda>w. length w > 2) (splitWs (toLowerCase q)))) tgs)) * 0.15 =
   spec_tagBonus tgs q"
  unfolding spec_tagBonus_def spec_keywords_def str_includes_def list_ex_iff
  by (simp only: mult.commute)

lemma ageHours_eq: "(x :: real) / (1000 * 60 * 60) = x / 3600000"
  by simp

lemma calculateRelevance_unfold:
  "calculateRelevance now m q =
     min 1 (spec_textSimilarity (summary m) q * 2.0 * (0.5 + strength m * 0.5) +
            spec_tagBonus (tags m) q + spec_recencyBonus ((now - createdAt m) / 3600000))"
  unfolding calculateRelevance_def Let_def textSimilarity_eq tagScore_eq ageHours_eq
    spec_recencyBonus_def
  by (rule refl)

lemma spec_textSimilarity_nonneg: "0 \<le> spec_textSimilarity s q"
  by (simp add: spec_textSimilarity_def jaccardIndex_nonneg)

lemma spec_tagBonus_nonneg: "0 \<le> spec_tagBonus ts q"
  by (simp add: spec_tagBonus_def)

lemma spec_recencyBonus_nonneg: "0 \<le> spec_recencyBonus h"
  by (simp add: spec_recencyBonus_def)

lemma spec_score_nonneg:
  assumes "0 \<le> strength m"
  shows "0 \<le> spec_textSimilarity (summary m) q * 2.0 * (0.5 + strength m * 0.5) +
            spec_tagBonus (tags m) q + spec_recencyBonus h"
proof -
  have "0 \<le> spec_textSimilarity (summary m) q * 2.0 * (0.5 + strength m * 0.5)"
    using assms spec_textSimilarity_nonneg [of "summary m" q] by simp
  with spec_tagBonus_nonneg [of "tags m" q] spec_recencyBonus_nonneg [of h]
  show ?thesis by linarith
qed

lemma calculateRelevance_spec:
  assumes "0 \<le> strength m"
  shows "calculateRelevance now m q = spec_relevance now m q"
  using spec_score_nonneg [OF assms, of q "(now - createdAt m) / 3600000"]
  by (simp add: calculateRelevance_unfold spec_relevance_def clamp01_def min_def)

lemma calculateRelevance_nonneg:
  assumes "0 \<le> strength m"
  shows "0 \<le> calculateRelevance now m q"
  using spec_score_nonneg [OF assms, of q "(now - createdAt m) / 3600000"]
  by (simp add: calculateRelevance_unfold)

lemma rankByTextSimilarity_spec:
  assumes "\<forall>x \<in> set ms. 0 \<le> strength x"
  shows "rankByTextSimilarity now ms q =
     map fst (sort_key (\<lambda>s. - snd s) (map (\<lambda>x. (x, spec_relevance now x q)) ms))"
proof -
  have eq: "map (\<lambda>mem. (mem, calculateRelevance now mem q)) ms =
        map (\<lambda>x. (x, spec_relevance now x q)) ms"
    using assms by (simp add: calculateRelevance_spec)
  show ?thesis unfolding rankByTextSimilarity_def Let_def eq by (rule refl)
qed

lemma authQuery_keywords: "spec_keywords authQuery = [''authentication'', ''bug'']"
  by (simp add: spec_keywords_def authQuery_def string_eval)

lemma auth_jaccard:
  "jaccardSimilarity (toLowerCase authSummary) (toLowerCase authQuery) = 2 / 5"
  by (simp add: jaccardSimilarity_def authSummary_def authQuery_def string_eval)

lemma auth_lower: "toLowerCase authSummary = ''fixed authentication bug in login flow''"
  by (simp add: authSummary_def toLowerCase_def toLowerChar_def)

lemma auth_hits:
  "filter (\<lambda>kw. sublist kw (toLowerCase authSummary)) [''authentication'', ''bug''] =
   [''authentication'', ''bug'']"
  unfolding auth_lower by (simp add: sublist_Cons_right)

lemma auth_textSimilarity: "spec_textSimilarity authSummary authQuery = 7 / 10"
  unfolding spec_textSimilarity_def authQuery_keywords auth_hits
    jaccardSimilarity_wordSet [symmetric] auth_jaccard
  by simp

lemma auth_no_tag: "spec_tagBonus [''decision''] authQuery = 0"
  unfolding spec_tagBonus_def authQuery_keywords
  by (simp add: toLowerCase_def toLowerChar_def sublist_Cons_right)

text \<open>
  C6.  For every memory unit (its strength not negative, as the data model has it) and
  every non-empty text query, the relevance score that ranks the results of
  \<open>retrieveIndex\<close> and that each result carries is the clamp to [0,1] of
  textSimilarity * 2.0 * (0.5 + strength * 0.5) + tagBonus + recencyBonus, where
  textSimilarity = 0.5 * jaccard(summary, query) + 0.5 * (keywordHits / queryKeywordCount),
  the keywords are the query words of length above 2 matched as substrings of the summary,
  tagBonus is 0.15 for each tag that contains a keyword, and
  recencyBonus = max(0, 0.05 - ageHours / 2000).
\<close>

theorem calculateRelevance_is_spec_relevance:
  assumes "0 \<le> strength m" and "q \<noteq> []" and "\<forall>x \<in> set ms. 0 \<le> strength x"
  shows "calculateRelevance now m q = spec_relevance now m q \<and>
         relevanceScore (toIndexItem now (Some q) m) = spec_relevance now m q \<and>
         rankByTextSimilarity now ms q =
           map fst (sort_key (\<lambda>s. - snd s) (map (\<lambda>x. (x, spec_relevance now x q)) ms))"
  using assms
  by (simp add: calculateRelevance_spec toIndexItem_def rankByTextSimilarity_spec)

theorem calculateRelevance_is_spec_relevance_witness:
  "0 \<le> strength authUnit \<and> authQuery \<noteq> [] \<and> list_all (\<lambda>x. 0 \<le> strength x) [authUnit] \<and>
   calculateRelevance 360000000 authUnit authQuery = 0.98 \<and>
   spec_relevance 360000000 authUnit authQuery = 0.98"
proof -
  have h: "0 \<le> strength authUnit" "authQuery \<noteq> []" "\<forall>x \<in> set [authUnit]. 0 \<le> strength x"
    by (simp_all add: authUnit_def exampleUnit_def authQuery_def)
  have s: "summary authUnit = authSummary" "strength authUnit = 0.4"
    "tags authUnit = [''decision'']" "createdAt authUnit = 0"
    by (simp_all add: authUnit_def exampleUnit_def)
  have v: "spec_relevance 360000000 authUnit authQuery = 0.98"
    by (simp add: spec_relevance_def s auth_textSimilarity auth_no_tag spec_recencyBonus_def
        clamp01_def)
  from calculateRelevance_is_spec_relevance [OF h, of 360000000] h v
  show ?thesis by simp
qed

section \<open>Ranges of the scores\<close>

lemma calculateStrength_range: "0 \<le> calculateStrength w f \<and> calculateStrength w f \<le> 1"
  by (simp add: calculateStrength_def Let_def)

lemma calculateRelevance_le_1: "calculateRelevance now m q \<le> 1"
  by (simp add: calculateRelevance_unfold)

lemma newUtility_range: "0 \<le> newUtility m used \<and> newUtility m used \<le> 1"
  by (simp add: newUtility_def Let_def)

lemma in_set_mapD: "x \<in> set (map f rows) \<Longrightarrow> \<exists>r. x = f r"
  by auto

lemma updateUnit_strength:
  assumes "x \<in> set (updateUnit i (\<lambda>m. m\<lparr>strength := s\<rparr>) rows)" and "unit_id x = i"
  shows "strength x = s"
proof -
  from assms(1) [unfolded updateUnit_def, THEN in_set_mapD]
  obtain r where r: "x = (if unit_id r = i then r\<lparr>strength := s\<rparr> else r)" ..
  show ?thesis
  proof (cases "unit_id r = i")
    case True
    with r show ?thesis by simp
  next
    case False
    with r assms(2) show ?thesis by simp
  qed
qed

lemma updateUtility_strength:
  assumes "updateUtility cfg now i used d = Inr (u, d')"
    and "x \<in> set (memories d')" and "unit_id x = i"
  shows "0 \<le> strength x \<and> strength x \<le> 1"
proof -
  from assms(1) [unfolded updateUtility_def, THEN andThen_Inr_D] obtain found d1 where
    g: "db_getMemory i d = Inr (found, d1)" and
    k: "(case found of
           None \<Rightarrow> Inr ((), d1)
         | Some memory \<Rightarrow>
             (let newStrength =
                    calculateStrength (scoringWeights cfg) (utilityFeatures now memory used)
              in db_updateMemoryStrength i newStrength d1)) = Inr (u, d')"
    by auto
  note g' = db_getMemory_Inr [OF g]
  show ?thesis
  proof (cases found)
    case None
    with k have "memories d' = memories d1" by simp
    with g' assms(2) have "x \<in> set (memories d)" by simp
    moreover from None g' have "\<not> (\<exists>m. m \<in> set (memories d) \<and> unit_id m = i)"
      by (simp add: find_None_iff)
    ultimately show ?thesis using assms(3) by blast
  next
    case (Some memory)
    with k have "db_updateMemoryStrength i
        (calculateStrength (scoringWeights cfg) (utilityFeatures now memory used)) d1 = Inr (u, d')"
      by (simp add: Let_def)
    from db_updateMemoryStrength_Inr [OF this] assms(2)
    have "x \<in> set (updateUnit i
        (\<lambda>m. m\<lparr>strength :=
           calculateStrength (scoringWeights cfg) (utilityFeatures now memory used)\<rparr>)
        (memories d1))"
      by simp
    from updateUnit_strength [OF this assms(3)]
    have "strength x = calculateStrength (scoringWeights cfg) (utilityFeatures now memory used)" .
    then show ?thesis by (simp add: calculateStrength_range)
  qed
qed

text \<open>
  C9.  Every scalar score the core produces lies in [0,1]: the strength from
  \<open>calculateStrength\<close>, for all inputs; the relevance from \<open>calculateRelevance\<close>, never
  above 1 and never below 0 for a unit whose strength is not negative; the utility that
  \<open>updateUtility\<close> computes, and the strength it then writes to the unit.
\<close>

theorem scores_in_unit_interval:
  "0 \<le> calculateStrength w f \<and> calculateStrength w f \<le> 1 \<and>
   calculateRelevance now m q \<le> 1 \<and>
   (0 \<le> strength m \<longrightarrow> 0 \<le> calculateRelevance now m q) \<and>
   0 \<le> newUtility mu used \<and> newUtility mu used \<le> 1 \<and>
   (\<forall>u d' x. updateUtility cfg t i used d = Inr (u, d') \<and> x \<in> set (memories d') \<and>
       unit_id x = i \<longrightarrow> 0 \<le> strength x \<and> strength x \<le> 1)"
proof -
  have "\<forall>u d' x. updateUtility cfg t i used d = Inr (u, d') \<and> x \<in> set (memories d') \<and>
       unit_id x = i \<longrightarrow> 0 \<le> strength x \<and> strength x \<le> 1"
    using updateUtility_strength by blast
  then show ?thesis
    using calculateStrength_range [of w f] calculateRelevance_le_1 [of now m q]
      calculateRelevance_nonneg [of m now q] newUtility_range [of mu used]
    by blast
qed

lemma frequent_updateUtility:
  "updateUtility exampleConfig 0 1 True frequentDb =
   Inr ((), frequentDb\<lparr>memories := [frequentUnit\<lparr>strength := 0.71\<rparr>]\<rparr>)"
  by (simp add: updateUtility_def utilityFeatures_def newUtility_def calculateRecency_def
      calculateStrength_def db_eval example_eval frequentDb_def frequentUnit_def tabsUnit_def
      Let_def)

theorem scores_in_unit_interval_witness:
  "0 \<le> strength authUnit \<and>
   0 \<le> calculateRelevance 360000000 authUnit authQuery \<and>
   calculateRelevance 360000000 authUnit authQuery \<le> 1 \<and>
   newUtility frequentUnit True = 0.6 \<and>
   updateUtility exampleConfig 0 1 True frequentDb =
     Inr ((), frequentDb\<lparr>memories := [frequentUnit\<lparr>strength := 0.71\<rparr>]\<rparr>) \<and>
   0 \<le> strength (frequentUnit\<lparr>strength := 0.71\<rparr>) \<and>
   strength (frequentUnit\<lparr>strength := 0.71\<rparr>) \<le> 1"
proof -
  have h: "0 \<le> strength authUnit"
    by (simp add: authUnit_def exampleUnit_def)
  have n: "newUtility frequentUnit True = 0.6"
    by (simp add: newUtility_def frequentUnit_def tabsUnit_def exampleUnit_def)
  have x: "frequentUnit\<lparr>strength := 0.71\<rparr> \<in>
      set (memories (frequentDb\<lparr>memories := [frequentUnit\<lparr>strength := 0.71\<rparr>]\<rparr>))"
    "unit_id (frequentUnit\<lparr>strength := 0.71\<rparr>) = 1"
    by (simp_all add: frequentUnit_def tabsUnit_def exampleUnit_def)
  from scores_in_unit_interval
    [of exampleWeights _ 360000000 authUnit authQuery frequentUnit True exampleConfig 0 1
      frequentDb]
    h n frequent_updateUtility x
  show ?thesis by blast
qed

section \<open>Reconsolidation\<close>

lemma docker_tabs_similarity:
  "calculateTextSimilarity ''deploy pipeline requires docker'' ''user prefers tabs over spaces'' = 0"
  by (simp add: calculateTextSimilarity_def string_eval)

text \<open>
  C1, evaluated at an input of its conflict path.  The stored unit is not pinned and the
  evidence shares no word with its summary (similarity 0, below 0.3).  \<open>reconsolidate\<close>
  reports the conflict and the confidence (0.5 + 0.9) / 2 * 0.8 = 0.56, but the store it
  leaves is the store it found: the unit's stored confidence is still 0.5 and its stored
  summary is still the original text, without annotation.
\<close>

theorem reconsolidate_conflict_leaves_store:
  "status tabsUnit \<noteq> Pinned \<and>
   calculateTextSimilarity (e_content dockerEvidence) (summary tabsUnit) < 0.3 \<and>
   reconsolidate 1 dockerEvidence tabsDb =
     Inr (\<lparr>success = True, updated = Some True, oldConfidence = Some 0.5,
           newConfidence = Some 0.56, conflict = Some True, reinforced = None,
           reason = None\<rparr>, tabsDb) \<and>
   map confidence (memories tabsDb) = [0.5] \<and>
   map summary (memories tabsDb) = [''user prefers tabs over spaces'']"
  by (simp add: reconsolidate_def db_eval example_eval tabsDb_def tabsUnit_def
      dockerEvidence_def docker_tabs_similarity Let_def)

text \<open>
  On no path does \<open>reconsolidate\<close> write a confidence or a summary: whatever it returns,
  the stored confidences and summaries are those it found.
\<close>

lemma updateUnit_frequency_fields:
  "map confidence (updateUnit i (\<lambda>m. m\<lparr>frequency := Suc (frequency m)\<rparr>) rows) = map confidence rows \<and>
   map summary (updateUnit i (\<lambda>m. m\<lparr>frequency := Suc (frequency m)\<rparr>) rows) = map summary rows"
  by (induction rows) (simp_all add: updateUnit_def)

lemma reconsolidate_writes_nothing:
  assumes "reconsolidate i ev d = Inr (r, d')"
  shows "map confidence (memories d') = map confidence (memories d) \<and>
         map summary (memories d') = map summary (memories d)"
proof -
  from assms [unfolded reconsolidate_def, THEN andThen_Inr_D] obtain found d1 where
    g: "db_getMemory i d = Inr (found, d1)" and
    k: "(case found of
           None \<Rightarrow>
             Inr (\<lparr>success = False, updated = None, oldConfidence = None, newConfidence = None,
                   conflict = None, reinforced = None, reason = Some ''Memory not found''\<rparr>, d1)
         | Some memory \<Rightarrow>
             if status memory = Pinned then
               Inr (\<lparr>success = False, updated = None, oldConfidence = None, newConfidence = None,
                     conflict = None, reinforced = None,
                     reason = Some ''Memory is pinned and cannot be reconsolidated''\<rparr>, d1)
             else
               (let similarity = calculateTextSimilarity (e_content ev) (summary memory)
                in if similarity < 0.3 then
                     (let newConf = (confidence memory + e_confidence ev) / 2 * 0.8;
                          updatedSummary = summary memory @ '' [Updated: '' @ e_content ev @ '']''
                      in Inr (\<lparr>success = True, updated = Some True,
                               oldConfidence = Some (confidence memory),
                               newConfidence = Some newConf,
                               conflict = Some True, reinforced = None, reason = None\<rparr>, d1))
                   else if similarity > 0.7 then
                     (let newConf = min 1 (confidence memory + e_confidence ev * 0.1)
                      in andThen (db_incrementFrequency i d1) (\<lambda>u d2.
                           Inr (\<lparr>success = True, updated = Some True,
                                 oldConfidence = Some (confidence memory),
                                 newConfidence = Some newConf,
                                 conflict = Some False, reinforced = Some True,
                                 reason = None\<rparr>, d2)))
                   else
                     Inr (\<lparr>success = True, updated = Some False, oldConfidence = None,
                           newConfidence = None, conflict = None, reinforced = None,
                           reason = Some ''No significant update needed''\<rparr>, d1))) = Inr (r, d')"
    by auto
  note g' = db_getMemory_Inr [OF g]
  from k have "d' = d1 \<or> (\<exists>u. db_incrementFrequency i d1 = Inr (u, d'))"
    by (auto simp: Let_def split: option.splits if_splits dest!: andThen_Inr_D)
  then show ?thesis
  proof
    assume "d' = d1"
    with g' show ?thesis by simp
  next
    assume "\<exists>u. db_incrementFrequency i d1 = Inr (u, d')"
    then obtain u where "db_incrementFrequency i d1 = Inr (u, d')" ..
    from db_incrementFrequency_Inr [OF this] g'
      updateUnit_frequency_fields [of i "memories d"]
    show ?thesis by simp
  qed
qed

section \<open>Consolidation\<close>

lemma promoteAct_promote:
  "shouldPromoteToLtm cfg mem \<Longrightarrow> promoteAct cfg mem = (\<lambda>r. r\<lparr>store := LTM\<rparr>)"
  by (simp add: promoteAct_def fun_eq_iff)

lemma promoteAct_decay:
  "\<not> shouldPromoteToLtm cfg mem \<Longrightarrow> strength mem < 0.1 \<Longrightarrow>
   promoteAct cfg mem = (\<lambda>r. r\<lparr>status := Decayed\<rparr>)"
  by (simp add: promoteAct_def fun_eq_iff)

lemma promoteAct_keep:
  "\<not> shouldPromoteToLtm cfg mem \<Longrightarrow> \<not> strength mem < 0.1 \<Longrightarrow>
   promoteAct cfg mem = (\<lambda>r. r)"
  by (simp add: promoteAct_def fun_eq_iff)

lemma unit_id_promoteAct: "unit_id (promoteAct cfg mem r) = unit_id r"
  by (simp add: promoteAct_def)

lemma shouldPromoteToLtm_iff: "shouldPromoteToLtm cfg m = promotionCriteria cfg m"
  by (simp add: shouldPromoteToLtm_def promotionCriteria_def)

text \<open>The loop on a store that does not fail.\<close>

lemma consolidate_noFault:
  "faultIn d = None \<Longrightarrow>
   consolidate cfg ms res d =
     Inr (\<lparr>promoted = promoted res @ map unit_id (filter (shouldPromoteToLtm cfg) ms),
           decayed = decayed res @
             map unit_id (filter (\<lambda>m. \<not> shouldPromoteToLtm cfg m \<and> strength m < 0.1) ms),
           unchanged = unchanged res @
             map unit_id (filter (\<lambda>m. \<not> shouldPromoteToLtm cfg m \<and> \<not> strength m < 0.1) ms)\<rparr>,
          d\<lparr>memories := fold (stepRows cfg) ms (memories d)\<rparr>)"
proof (induction ms arbitrary: res d)
  case Nil
  then show ?case by simp
next
  case (Cons mem rest)
  show ?case
  proof (cases "shouldPromoteToLtm cfg mem")
    case True
    then show ?thesis
      using Cons.prems
      by (simp add: Cons.IH db_promoteToLtm_def call_noFault stepRows_def promoteAct_promote)
  next
    case False
    show ?thesis
    proof (cases "strength mem < 0.1")
      case True
      with False show ?thesis
        using Cons.prems
        by (simp add: Cons.IH db_updateMemoryStatus_def call_noFault stepRows_def
            promoteAct_decay)
    next
      case notweak: False
      have "stepRows cfg mem (memories d) = memories d"
        using False notweak by (simp add: stepRows_def promoteAct_keep updateUnit_def)
      with False notweak show ?thesis
        using Cons.prems by (simp add: Cons.IH)
    qed
  qed
qed

text \<open>The loop when it returns, whatever the fault.\<close>

lemma consolidate_Inr:
  "consolidate cfg ms res d = Inr (res', d') \<Longrightarrow>
   res' = \<lparr>promoted = promoted res @ map unit_id (filter (shouldPromoteToLtm cfg) ms),
           decayed = decayed res @
             map unit_id (filter (\<lambda>m. \<not> shouldPromoteToLtm cfg m \<and> strength m < 0.1) ms),
           unchanged = unchanged res @
             map unit_id (filter (\<lambda>m. \<not> shouldPromoteToLtm cfg m \<and> \<not> strength m < 0.1) ms)\<rparr> \<and>
   memories d' = fold (stepRows cfg) ms (memories d) \<and>
   sessions d' = sessions d \<and> txn d' = txn d"
proof (induction ms arbitrary: res d)
  case Nil
  then show ?case by auto
next
  case (Cons mem rest)
  show ?case
  proof (cases "shouldPromoteToLtm cfg mem")
    case True
    with Cons.prems obtain u d1 where
      c: "db_promoteToLtm (unit_id mem) d = Inr (u, d1)" and
      r: "consolidate cfg rest (res\<lparr>promoted := promoted res @ [unit_id mem]\<rparr>) d1 =
          Inr (res', d')"
      by (auto split: sum.splits)
    from Cons.IH [OF r] db_promoteToLtm_Inr [OF c] True show ?thesis
      by (simp add: stepRows_def promoteAct_promote)
  next
    case False
    show ?thesis
    proof (cases "strength mem < 0.1")
      case True
      with False Cons.prems obtain u d1 where
        c: "db_updateMemoryStatus (unit_id mem) Decayed d = Inr (u, d1)" and
        r: "consolidate cfg rest (res\<lparr>decayed := decayed res @ [unit_id mem]\<rparr>) d1 =
            Inr (res', d')"
        by (auto split: sum.splits)
      from Cons.IH [OF r] db_updateMemoryStatus_Inr [OF c] False True show ?thesis
        by (simp add: stepRows_def promoteAct_decay)
    next
      case notweak: False
      with False Cons.prems have
        r: "consolidate cfg rest (res\<lparr>unchanged := unchanged res @ [unit_id mem]\<rparr>) d =
            Inr (res', d')"
        by simp
      have "stepRows cfg mem (memories d) = memories d"
        using False notweak by (simp add: stepRows_def promoteAct_keep updateUnit_def)
      with Cons.IH [OF r] False notweak show ?thesis by simp
    qed
  qed
qed

text \<open>The loop when a call throws: the snapshot is kept and the fault is used up.\<close>

lemma consolidate_Inl:
  "consolidate cfg ms res d = Inl (e, d') \<Longrightarrow> txn d' = txn d \<and> faultIn d' = None"
proof (induction ms arbitrary: res d)
  case Nil
  then show ?case by simp
next
  case (Cons mem rest)
  show ?case
  proof (cases "shouldPromoteToLtm cfg mem")
    case True
    show ?thesis
    proof (cases "db_promoteToLtm (unit_id mem) d")
      case (Inl a)
      with True Cons.prems have "db_promoteToLtm (unit_id mem) d = Inl (e, d')" by simp
      then show ?thesis by (auto simp: db_promoteToLtm_def dest!: call_Inl_D)
    next
      case (Inr b)
      obtain u d1 where b: "b = (u, d1)" by (cases b)
      with Inr True Cons.prems have
        "consolidate cfg rest (res\<lparr>promoted := promoted res @ [unit_id mem]\<rparr>) d1 = Inl (e, d')"
        by simp
      from Cons.IH [OF this] db_promoteToLtm_Inr [OF Inr [unfolded b]] show ?thesis by simp
    qed
  next
    case False
    show ?thesis
    proof (cases "strength mem < 0.1")
      case True
      show ?thesis
      proof (cases "db_updateMemoryStatus (unit_id mem) Decayed d")
        case (Inl a)
        with False True Cons.prems have
          "db_updateMemoryStatus (unit_id mem) Decayed d = Inl (e, d')" by simp
        then show ?thesis by (auto simp: db_updateMemoryStatus_def dest!: call_Inl_D)
      next
        case (Inr b)
        obtain u d1 where b: "b = (u, d1)" by (cases b)
        with Inr False True Cons.prems have
          "consolidate cfg rest (res\<lparr>decayed := decayed res @ [unit_id mem]\<rparr>) d1 = Inl (e, d')"
          by simp
        from Cons.IH [OF this] db_updateMemoryStatus_Inr [OF Inr [unfolded b]]
        show ?thesis by simp
      qed
    next
      case notweak: False
      with False Cons.prems have
        "consolidate cfg rest (res\<lparr>unchanged := unchanged res @ [unit_id mem]\<rparr>) d = Inl (e, d')"
        by simp
      from Cons.IH [OF this] show ?thesis .
    qed
  qed
qed

text \<open>With distinct keys, the steps of the loop change each row once, by its own values.\<close>

lemma fold_stepRows:
  "distinct (map unit_id ms) \<Longrightarrow> fold (stepRows cfg) ms rows = map (actFrom cfg ms) rows"
proof (induction ms arbitrary: rows)
  case Nil
  then show ?case by (simp add: actFrom_def)
next
  case (Cons mem rest)
  then have d: "distinct (map unit_id rest)" and n: "unit_id mem \<notin> unit_id ` set rest"
    by simp_all
  have none: "find (\<lambda>m. unit_id m = unit_id mem) rest = None"
    using n by (force simp: find_None_iff image_iff)
  have "fold (stepRows cfg) (mem # rest) rows = map (actFrom cfg rest) (stepRows cfg mem rows)"
    using Cons.IH [OF d] by simp
  also have "\<dots> = map (actFrom cfg (mem # rest)) rows"
    using none by (auto simp: stepRows_def updateUnit_def actFrom_def unit_id_promoteAct)
  finally show ?case .
qed

lemma find_filter_distinct:
  assumes "distinct (map unit_id rows)" and "r \<in> set rows"
  shows "find (\<lambda>m. unit_id m = unit_id r) (filter P rows) = (if P r then Some r else None)"
  using assms
proof (induction rows)
  case Nil
  then show ?case by simp
next
  case (Cons a rows)
  show ?case
  proof (cases "r = a")
    case True
    have "find (\<lambda>m. unit_id m = unit_id a) (filter P rows) = None"
      using Cons.prems(1) by (force simp: find_None_iff image_iff)
    with True show ?thesis by simp
  next
    case False
    with Cons.prems have r: "r \<in> set rows" and d: "distinct (map unit_id rows)"
      by simp_all
    from Cons.prems(1) r have "unit_id a \<noteq> unit_id r"
      by (force simp: image_iff)
    then show ?thesis using Cons.IH [OF d r] by simp
  qed
qed

lemma actFrom_stm:
  assumes "distinct (map unit_id rows)" and "r \<in> set rows"
  shows "actFrom cfg (filter (\<lambda>m. store m = STM) rows) r = consolidateUnit cfg r"
  using find_filter_distinct [OF assms, of "\<lambda>m. store m = STM"]
  by (simp add: actFrom_def consolidateUnit_def promoteAct_def shouldPromoteToLtm_iff)

lemma fold_stepRows_stm:
  assumes "distinct (map unit_id rows)"
  shows "fold (stepRows cfg) (filter (\<lambda>m. store m = STM) rows) rows =
         map (consolidateUnit cfg) rows"
proof -
  have "distinct (map unit_id (filter (\<lambda>m. store m = STM) rows))"
    using assms by (simp add: distinct_map_filter)
  then show ?thesis
    using actFrom_stm [OF assms] by (simp add: fold_stepRows)
qed

lemma runConsolidation_noFault:
  assumes "faultIn d = None" and "distinct (map unit_id (memories d))"
  shows "runConsolidation cfg d =
     Inr (consolidationOf cfg (memories d),
          d\<lparr>memories := map (consolidateUnit cfg) (memories d)\<rparr>)"
  using assms(1) fold_stepRows_stm [OF assms(2), of cfg]
  by (simp add: runConsolidation_def db_getMemoriesByStore_def call_noFault andThen_Inr
      consolidate_noFault consolidationOf_def shouldPromoteToLtm_iff)

lemma runConsolidation_Inr:
  assumes "runConsolidation cfg d = Inr (res, d')" and "distinct (map unit_id (memories d))"
  shows "res = consolidationOf cfg (memories d) \<and>
         memories d' = map (consolidateUnit cfg) (memories d) \<and>
         sessions d' = sessions d \<and> txn d' = txn d"
proof -
  from assms(1) [unfolded runConsolidation_def, THEN andThen_Inr_D] obtain ms d1 where
    g: "db_getMemoriesByStore STM d = Inr (ms, d1)" and
    c: "consolidate cfg ms \<lparr>promoted = [], decayed = [], unchanged = []\<rparr> d1 = Inr (res, d')"
    by auto
  from db_getMemoriesByStore_Inr [OF g] consolidate_Inr [OF c]
  show ?thesis
    using fold_stepRows_stm [OF assms(2), of cfg]
    by (simp add: consolidationOf_def shouldPromoteToLtm_iff)
qed

lemma runConsolidation_Inl:
  assumes "runConsolidation cfg d = Inl (e, d')"
  shows "txn d' = txn d \<and> faultIn d' = None"
proof -
  from assms [unfolded runConsolidation_def, THEN andThen_Inl_D] consider
    (a) "db_getMemoriesByStore STM d = Inl (e, d')" |
    (b) ms d1 where "db_getMemoriesByStore STM d = Inr (ms, d1)"
      "consolidate cfg ms \<lparr>promoted = [], decayed = [], unchanged = []\<rparr> d1 = Inl (e, d')"
    by auto
  then show ?thesis
  proof cases
    case a
    then show ?thesis by (auto simp: db_getMemoriesByStore_def dest!: call_Inl_D)
  next
    case b
    from db_getMemoriesByStore_Inr [OF b(1)] consolidate_Inl [OF b(2)] show ?thesis by simp
  qed
qed

text \<open>With distinct keys, a key is in a list of the result exactly when its unit is.\<close>

lemma id_in_filter:
  assumes "distinct (map unit_id rows)" and "m \<in> set rows"
  shows "unit_id m \<in> set (map unit_id (filter P rows)) \<longleftrightarrow> P m"
proof
  assume "unit_id m \<in> set (map unit_id (filter P rows))"
  then obtain m' where m': "m' \<in> set rows" "P m'" "unit_id m' = unit_id m"
    by auto
  from assms(1) have "inj_on unit_id (set rows)" by (simp add: distinct_map)
  with m'(1,3) assms(2) have "m' = m" by (auto dest: inj_onD)
  with m'(2) show "P m" by simp
next
  assume "P m"
  with assms(2) show "unit_id m \<in> set (map unit_id (filter P rows))" by auto
qed

text \<open>
  C4.  On a store that does not fail and whose keys are distinct, \<open>runConsolidation\<close>
  returns, and for every stm unit it scanned: the unit is promoted to ltm if and only if
  its classification is in the auto-promote set, or its strength is at least
  stmToLtmStrengthThreshold, or its frequency is at least stmToLtmFrequencyThreshold;
  otherwise, if its strength is below 0.1, its status becomes decayed and the row stays;
  otherwise it is unchanged.  The result lists the key of each stm unit in exactly the
  list that says so, and no other key.
\<close>

theorem runConsolidation_rule:
  assumes "faultIn d = None" and "distinct (map unit_id (memories d))"
  shows "runConsolidation cfg d =
           Inr (consolidationOf cfg (memories d),
                d\<lparr>memories := map (consolidateUnit cfg) (memories d)\<rparr>) \<and>
         (\<forall>m \<in> set (memories d).
            (unit_id m \<in> set (promoted (consolidationOf cfg (memories d))) \<longleftrightarrow>
               store m = STM \<and> promotionCriteria cfg m) \<and>
            (unit_id m \<in> set (decayed (consolidationOf cfg (memories d))) \<longleftrightarrow>
               store m = STM \<and> \<not> promotionCriteria cfg m \<and> strength m < 0.1) \<and>
            (unit_id m \<in> set (unchanged (consolidationOf cfg (memories d))) \<longleftrightarrow>
               store m = STM \<and> \<not> promotionCriteria cfg m \<and> \<not> strength m < 0.1))"
  using runConsolidation_noFault [OF assms] id_in_filter [OF assms(2)]
  by (simp add: consolidationOf_def)

lemma sessionDb_distinct: "distinct (map unit_id (memories sessionDb))"
  by (simp add: sessionDb_def weakUnit_def strongUnit_def example_eval)

theorem runConsolidation_rule_witness:
  "faultIn sessionDb = None \<and> distinct (map unit_id (memories sessionDb)) \<and>
   runConsolidation exampleConfig sessionDb =
     Inr (\<lparr>promoted = [2], decayed = [1], unchanged = []\<rparr>,
          sessionDb\<lparr>memories := [weakUnit\<lparr>status := Decayed\<rparr>, strongUnit\<lparr>store := LTM\<rparr>]\<rparr>)"
proof -
  have h: "faultIn sessionDb = None"
    by (simp add: sessionDb_def emptyDb_def)
  have c: "consolidationOf exampleConfig (memories sessionDb) =
      \<lparr>promoted = [2], decayed = [1], unchanged = []\<rparr>"
    by (simp add: consolidationOf_def promotionCriteria_def sessionDb_def weakUnit_def
        strongUnit_def example_eval)
  have r: "map (consolidateUnit exampleConfig) (memories sessionDb) =
      [weakUnit\<lparr>status := Decayed\<rparr>, strongUnit\<lparr>store := LTM\<rparr>]"
    by (simp add: consolidateUnit_def promotionCriteria_def sessionDb_def weakUnit_def
        strongUnit_def example_eval)
  from runConsolidation_rule [OF h sessionDb_distinct, of exampleConfig] h sessionDb_distinct c r
  show ?thesis by simp
qed

section \<open>The session-end transaction\<close>

lemma applyDecay_Inr:
  assumes "applyDecay now dt d = Inr (r, d')"
  shows "memoriesDecayed r = length (filter (\<lambda>m. status m = Active) (memories d)) \<and>
         memories d' = map (decayUnit (decayRate d) dt) (memories d) \<and>
         sessions d' = sessions d \<and> txn d' = txn d"
proof -
  from assms [unfolded applyDecay_def, THEN andThen_Inr_D] obtain n d1 where
    a: "db_applyDecay dt d = Inr (n, d1)" and
    b: "Inr (\<lparr>memoriesDecayed = n, timestamp = now\<rparr>, d1) = (Inr (r, d') :: DecayResult outcome)"
    by auto
  from db_applyDecay_Inr [OF a] b show ?thesis by auto
qed

lemma applyDecay_Inl:
  assumes "applyDecay now dt d = Inl (e, d')"
  shows "txn d' = txn d \<and> faultIn d' = None"
proof -
  from assms [unfolded applyDecay_def, THEN andThen_Inl_D]
  have "db_applyDecay dt d = Inl (e, d')" by auto
  then show ?thesis by (auto simp: db_applyDecay_def dest!: call_Inl_D)
qed

lemma decayUnit_id: "map unit_id (map (decayUnit lam dt) rows) = map unit_id rows"
  by (induction rows) (simp_all add: decayUnit_def)

text \<open>The block when it returns: every statement has returned, the commit last.\<close>

lemma tryBlock_Inr:
  assumes "tryBlock cfg now dt sid st d = Inr ((dr, cr), d')"
    and "distinct (map unit_id (memories d))"
  shows "memories d' = map (consolidateUnit cfg) (map (decayUnit (decayRate d) dt) (memories d)) \<and>
         sessions d' = (sessions d)(sid \<mapsto> st) \<and> txn d' = None \<and>
         cr = consolidationOf cfg (map (decayUnit (decayRate d) dt) (memories d)) \<and>
         memoriesDecayed dr = length (filter (\<lambda>m. status m = Active) (memories d))"
proof -
  from assms(1) [unfolded tryBlock_def, THEN andThen_Inr_D] obtain u1 d1 where
    s1: "db_endSession sid st d = Inr (u1, d1)" and
    r1: "andThen (applyDecay now dt d1) (\<lambda>decayResult d2.
           andThen (runConsolidation cfg d2) (\<lambda>consolidationResult d3.
           andThen (db_commitTransaction d3) (\<lambda>u d4.
             Inr ((decayResult, consolidationResult), d4)))) = Inr ((dr, cr), d')"
    by auto
  from r1 [THEN andThen_Inr_D] obtain dr2 d2 where
    s2: "applyDecay now dt d1 = Inr (dr2, d2)" and
    r2: "andThen (runConsolidation cfg d2) (\<lambda>consolidationResult d3.
           andThen (db_commitTransaction d3) (\<lambda>u d4.
             Inr ((dr2, consolidationResult), d4))) = Inr ((dr, cr), d')"
    by auto
  from r2 [THEN andThen_Inr_D] obtain cr3 d3 where
    s3: "runConsolidation cfg d2 = Inr (cr3, d3)" and
    r3: "andThen (db_commitTransaction d3) (\<lambda>u d4. Inr ((dr2, cr3), d4)) = Inr ((dr, cr), d')"
    by auto
  from r3 [THEN andThen_Inr_D] obtain u4 d4 where
    s4: "db_commitTransaction d3 = Inr (u4, d4)" and
    r4: "(Inr ((dr2, cr3), d4) :: (DecayResult \<times> ConsolidationResult) outcome) =
         Inr ((dr, cr), d')"
    by auto
  note e1 = db_endSession_Inr [OF s1]
  note e2 = applyDecay_Inr [OF s2]
  have "map unit_id (memories d2) = map unit_id (memories d)"
    using e1 e2 decayUnit_id [of "decayRate d" dt "memories d"] by simp
  with assms(2) have dist2: "distinct (map unit_id (memories d2))"
    by simp
  note e3 = runConsolidation_Inr [OF s3 dist2]
  note e4 = db_commitTransaction_Inr [OF s4]
  from r4 have "dr = dr2" "cr = cr3" "d' = d4" by simp_all
  with e1 e2 e3 e4 show ?thesis by simp
qed

text \<open>The block when a statement throws: the snapshot is kept and the fault is used up.\<close>

lemma tryBlock_Inl:
  assumes "tryBlock cfg now dt sid st d = Inl (e, d')"
  shows "txn d' = txn d \<and> faultIn d' = None"
proof -
  from assms consider
    (a) "db_endSession sid st d = Inl (e, d')" |
    (b) u1 d1 where "db_endSession sid st d = Inr (u1, d1)" "applyDecay now dt d1 = Inl (e, d')" |
    (c) u1 d1 dr2 d2 where "db_endSession sid st d = Inr (u1, d1)"
      "applyDecay now dt d1 = Inr (dr2, d2)" "runConsolidation cfg d2 = Inl (e, d')" |
    (d) u1 d1 dr2 d2 cr3 d3 where "db_endSession sid st d = Inr (u1, d1)"
      "applyDecay now dt d1 = Inr (dr2, d2)" "runConsolidation cfg d2 = Inr (cr3, d3)"
      "db_commitTransaction d3 = Inl (e, d')"
    unfolding tryBlock_def
    by (auto simp: andThen_def split: sum.splits)
  then show ?thesis
  proof cases
    case a
    then show ?thesis by (auto simp: db_endSession_def dest!: call_Inl_D)
  next
    case b
    from db_endSession_Inr [OF b(1)] applyDecay_Inl [OF b(2)] show ?thesis by simp
  next
    case c
    from db_endSession_Inr [OF c(1)] applyDecay_Inr [OF c(2)] runConsolidation_Inl [OF c(3)]
    show ?thesis by simp
  next
    case d
    from d(3) [unfolded runConsolidation_def, THEN andThen_Inr_D] obtain ms x where
      g: "db_getMemoriesByStore STM d2 = Inr (ms, x)" and
      k: "consolidate cfg ms \<lparr>promoted = [], decayed = [], unchanged = []\<rparr> x = Inr (cr3, d3)"
      by auto
    from db_getMemoriesByStore_Inr [OF g] consolidate_Inr [OF k]
    have t3: "txn d3 = txn d2" by simp
    from d(4) have "d' = d3\<lparr>faultIn := None\<rparr>"
      by (auto simp: db_commitTransaction_def dest!: call_Inl_D)
    with t3 db_endSession_Inr [OF d(1)] applyDecay_Inr [OF d(2)] show ?thesis by simp
  qed
qed

text \<open>The \<open>catch\<close>: the store of the snapshot, and the exception of the block.\<close>

lemma process_rollback:
  assumes "db_beginTransaction d = Inr (u, d0)"
    and "tryBlock cfg now dt sid
           (if sed_reason data = ''abandoned'' then Abandoned else Completed) d0 = Inl (err, df)"
  shows "process cfg now dt sid data d =
         Inl (err, df\<lparr>memories := memories d, sessions := sessions d, txn := None\<rparr>)"
proof -
  from tryBlock_Inl [OF assms(2)] db_beginTransaction_Inr [OF assms(1)]
  have df: "txn df = Some (memories d, sessions d)" "faultIn df = None" by simp_all
  then have "db_rollbackTransaction df =
      Inr ((), df\<lparr>memories := memories d, sessions := sessions d, txn := None\<rparr>)"
    by (simp add: db_rollbackTransaction_def call_noFault)
  with assms show ?thesis
    by (simp add: process_def Let_def)
qed

lemma process_Inl:
  assumes "process cfg now dt sid data d = Inl (e, d')"
  shows "memories d' = memories d \<and> sessions d' = sessions d"
proof (cases "db_beginTransaction d")
  case (Inl a)
  with assms have "db_beginTransaction d = Inl (e, d')"
    by (simp add: process_def)
  then show ?thesis by (auto simp: db_beginTransaction_def dest!: call_Inl_D)
next
  case (Inr b)
  obtain u d0 where b: "b = (u, d0)" by (cases b)
  let ?st = "if sed_reason data = ''abandoned'' then Abandoned else Completed"
  show ?thesis
  proof (cases "tryBlock cfg now dt sid ?st d0")
    case tl: (Inl a)
    obtain err df where a: "a = (err, df)" by (cases a)
    from process_rollback [OF Inr [unfolded b] tl [unfolded a]] assms
    show ?thesis by auto
  next
    case tr: (Inr c)
    with assms Inr b show ?thesis
      by (auto simp: process_def Let_def split: prod.splits)
  qed
qed

lemma process_Inr:
  assumes "process cfg now dt sid data d = Inr (res, d')"
    and "distinct (map unit_id (memories d))"
  shows "memories d' = map (consolidateUnit cfg) (map (decayUnit (decayRate d) dt) (memories d)) \<and>
         sessions d' =
           (sessions d)(sid \<mapsto> (if sed_reason data = ''abandoned'' then Abandoned else Completed)) \<and>
         txn d' = None \<and>
         se_promoted res =
           length (promoted (consolidationOf cfg (map (decayUnit (decayRate d) dt) (memories d)))) \<and>
         se_decayed res = length (filter (\<lambda>m. status m = Active) (memories d)) \<and>
         se_cleaned res = 0"
proof -
  let ?st = "if sed_reason data = ''abandoned'' then Abandoned else Completed"
  from assms(1) obtain u d0 dr cr where
    beg: "db_beginTransaction d = Inr (u, d0)" and
    tb: "tryBlock cfg now dt sid ?st d0 = Inr ((dr, cr), d')" and
    res: "res = \<lparr>se_promoted = length (promoted cr), se_decayed = memoriesDecayed dr,
                  se_cleaned = cleanupDecayedMemories\<rparr>"
    by (auto simp: process_def Let_def split: sum.splits prod.splits)
  note b = db_beginTransaction_Inr [OF beg]
  from b assms(2) have "distinct (map unit_id (memories d0))" by simp
  from tryBlock_Inr [OF tb this] b res show ?thesis
    by (simp add: cleanupDecayedMemories_def)
qed

lemma process_noFault:
  assumes "faultIn d = None"
  shows "\<exists>res d'. process cfg now dt sid data d = Inr (res, d')"
  using assms
  by (simp add: process_def Let_def tryBlock_def db_beginTransaction_def db_endSession_def
      applyDecay_def db_applyDecay_def runConsolidation_def db_getMemoriesByStore_def
      db_commitTransaction_def call_noFault andThen_Inr consolidate_noFault)

text \<open>
  C3.  In \<open>SessionEndHook.process\<close> decay and consolidation run inside one transaction.
  If a statement of the transactional block throws, the transaction is rolled back and
  the exception reaches the caller: the memories and the sessions are those from before
  the call, with neither decay nor consolidation in them.  If \<open>process\<close> returns, both
  are committed together: every unit has been decayed and then consolidated on its
  decayed strength, and no transaction is open.  On a store that does not fail it
  returns.
\<close>

theorem process_atomic:
  "(\<forall>u d0 err df.
      db_beginTransaction d = Inr (u, d0) \<and>
      tryBlock cfg now dt sid
        (if sed_reason data = ''abandoned'' then Abandoned else Completed) d0 = Inl (err, df) \<longrightarrow>
      process cfg now dt sid data d =
        Inl (err, df\<lparr>memories := memories d, sessions := sessions d, txn := None\<rparr>)) \<and>
   (\<forall>e d'. process cfg now dt sid data d = Inl (e, d') \<longrightarrow>
      memories d' = memories d \<and> sessions d' = sessions d) \<and>
   (\<forall>res d'. process cfg now dt sid data d = Inr (res, d') \<and>
      distinct (map unit_id (memories d)) \<longrightarrow>
      memories d' =
        map (consolidateUnit cfg) (map (decayUnit (decayRate d) dt) (memories d)) \<and>
      sessions d' =
        (sessions d)(sid \<mapsto> (if sed_reason data = ''abandoned'' then Abandoned else Completed)) \<and>
      txn d' = None) \<and>
   (faultIn d = None \<longrightarrow> (\<exists>res d'. process cfg now dt sid data d = Inr (res, d')))"
proof (intro conjI allI impI)
  fix u d0 err df
  assume "db_beginTransaction d = Inr (u, d0) \<and>
      tryBlock cfg now dt sid
        (if sed_reason data = ''abandoned'' then Abandoned else Completed) d0 = Inl (err, df)"
  then show "process cfg now dt sid data d =
        Inl (err, df\<lparr>memories := memories d, sessions := sessions d, txn := None\<rparr>)"
    using process_rollback by blast
next
  fix e d'
  assume "process cfg now dt sid data d = Inl (e, d')"
  from process_Inl [OF this] show "memories d' = memories d" and "sessions d' = sessions d"
    by simp_all
next
  fix res d'
  assume a: "process cfg now dt sid data d = Inr (res, d') \<and>
      distinct (map unit_id (memories d))"
  then have p: "process cfg now dt sid data d = Inr (res, d')"
    and di: "distinct (map unit_id (memories d))" by simp_all
  from process_Inr [OF p di]
  show "memories d' =
        map (consolidateUnit cfg) (map (decayUnit (decayRate d) dt) (memories d))"
    and "sessions d' =
        (sessions d)(sid \<mapsto> (if sed_reason data = ''abandoned'' then Abandoned else Completed))"
    and "txn d' = None"
    by simp_all
next
  assume "faultIn d = None"
  then show "\<exists>res d'. process cfg now dt sid data d = Inr (res, d')"
    by (rule process_noFault)
qed

lemmas session_eval = tryBlock_def applyDecay_def runConsolidation_def
  shouldPromoteToLtm_def cleanupDecayedMemories_def sessionDb_def sessionData_def
  weakUnit_def strongUnit_def

text \<open>
  The store of the consolidation scenario, with the fault due at the sixth call: the
  session has been ended, both units decayed and the weak unit marked, when the promotion
  of the strong unit throws.
\<close>

lemma session_begin_evaluated:
  "db_beginTransaction (sessionDb\<lparr>faultIn := Some 5\<rparr>) =
   Inr ((), sessionDb\<lparr>faultIn := Some 4, txn := Some (memories sessionDb, sessions sessionDb)\<rparr>)"
  by (simp add: db_eval)

lemma session_block_evaluated:
  "tryBlock exampleConfig 0 0 ''s1'' Completed
     (sessionDb\<lparr>faultIn := Some 4, txn := Some (memories sessionDb, sessions sessionDb)\<rparr>) =
   Inl (StorageError,
        sessionDb\<lparr>memories := [weakUnit\<lparr>status := Decayed\<rparr>, strongUnit],
                   sessions := [''s1'' \<mapsto> Completed],
                   txn := Some (memories sessionDb, sessions sessionDb)\<rparr>)"
  by (simp add: session_eval db_eval example_eval Let_def)

lemma status_of_sessionData:
  "(if sed_reason sessionData = ''abandoned'' then Abandoned else Completed) = Completed"
  by (simp add: sessionData_def)

lemma session_fault_evaluated:
  "process exampleConfig 0 0 ''s1'' sessionData (sessionDb\<lparr>faultIn := Some 5\<rparr>) =
   Inl (StorageError, sessionDb)"
proof -
  have "process exampleConfig 0 0 ''s1'' sessionData (sessionDb\<lparr>faultIn := Some 5\<rparr>) =
      Inl (StorageError,
        (sessionDb\<lparr>memories := [weakUnit\<lparr>status := Decayed\<rparr>, strongUnit],
                   sessions := [''s1'' \<mapsto> Completed],
                   txn := Some (memories sessionDb, sessions sessionDb)\<rparr>)
          \<lparr>memories := memories (sessionDb\<lparr>faultIn := Some 5\<rparr>),
           sessions := sessions (sessionDb\<lparr>faultIn := Some 5\<rparr>), txn := None\<rparr>)"
    by (rule process_rollback [OF session_begin_evaluated])
      (simp only: status_of_sessionData session_block_evaluated)
  then show ?thesis by (simp add: sessionDb_def emptyDb_def)
qed

lemma session_commit_evaluated:
  "process exampleConfig 0 0 ''s1'' sessionData sessionDb =
   Inr (\<lparr>se_promoted = 1, se_decayed = 2, se_cleaned = 0\<rparr>,
        sessionDb\<lparr>memories := [weakUnit\<lparr>status := Decayed\<rparr>, strongUnit\<lparr>store := LTM\<rparr>],
                   sessions := [''s1'' \<mapsto> Completed]\<rparr>)"
  by (simp add: process_def session_eval db_eval example_eval Let_def)

theorem process_atomic_witness:
  "process exampleConfig 0 0 ''s1'' sessionData (sessionDb\<lparr>faultIn := Some 5\<rparr>) =
     Inl (StorageError, sessionDb) \<and>
   memories sessionDb = memories (sessionDb\<lparr>faultIn := Some 5\<rparr>) \<and>
   sessions sessionDb = sessions (sessionDb\<lparr>faultIn := Some 5\<rparr>) \<and>
   faultIn sessionDb = None \<and>
   distinct (map unit_id (memories sessionDb)) \<and>
   process exampleConfig 0 0 ''s1'' sessionData sessionDb =
     Inr (\<lparr>se_promoted = 1, se_decayed = 2, se_cleaned = 0\<rparr>,
          sessionDb\<lparr>memories := [weakUnit\<lparr>status := Decayed\<rparr>, strongUnit\<lparr>store := LTM\<rparr>],
                     sessions := [''s1'' \<mapsto> Completed]\<rparr>)"
proof -
  have h: "faultIn sessionDb = None"
    by (simp add: sessionDb_def emptyDb_def)
  have c: "memories sessionDb = memories (sessionDb\<lparr>faultIn := Some 5\<rparr>) \<and>
           sessions sessionDb = sessions (sessionDb\<lparr>faultIn := Some 5\<rparr>)"
    by (rule process_atomic [of "sessionDb\<lparr>faultIn := Some 5\<rparr>" exampleConfig 0 0 "''s1''"
          sessionData, THEN conjunct2, THEN conjunct1, rule_format,
          OF session_fault_evaluated])
  show ?thesis
    by (intro conjI)
      (rule session_fault_evaluated, rule c [THEN conjunct1], rule c [THEN conjunct2],
       rule h, rule sessionDb_distinct, rule session_commit_evaluated)
qed

section \<open>Intake of candidates\<close>

lemma fold_max_ge: "(a :: nat) \<le> fold max xs a"
proof (induction xs arbitrary: a)
  case Nil
  show ?case by simp
next
  case (Cons y ys)
  have "max y a \<le> fold max ys (max y a)" by (rule Cons.IH)
  then show ?case by simp
qed

lemma fold_max_mem: "(x :: nat) \<in> set xs \<Longrightarrow> x \<le> fold max xs a"
proof (induction xs arbitrary: a)
  case Nil
  then show ?case by simp
next
  case (Cons y ys)
  show ?case
  proof (cases "x = y")
    case True
    have "max y a \<le> fold max ys (max y a)" by (rule fold_max_ge)
    with True show ?thesis by simp
  next
    case False
    with Cons.prems have "x \<in> set ys" by simp
    from Cons.IH [OF this] show ?thesis by simp
  qed
qed

lemma freshId_fresh: "m \<in> set ms \<Longrightarrow> unit_id m \<noteq> freshId ms"
proof -
  assume "m \<in> set ms"
  then have "unit_id m \<in> set (map unit_id ms)" by simp
  from fold_max_mem [OF this, of 0] show ?thesis by (simp add: freshId_def)
qed

lemma updateUnit_fresh:
  assumes "\<And>m. m \<in> set ms \<Longrightarrow> unit_id m \<noteq> unit_id u"
  shows "updateUnit (unit_id u) f (ms @ [u]) = ms @ [f u]"
proof -
  have "map (\<lambda>m. if unit_id m = unit_id u then f m else m) ms = ms"
    using assms by (induction ms) simp_all
  then show ?thesis by (simp add: updateUnit_def)
qed

lemma unit_id_newUnit: "unit_id (newUnit d now st cl s srcs fs) = freshId (memories d)"
  by (simp add: newUnit_def)

text \<open>One candidate on a store that does not fail.\<close>

lemma processCandidate_noFault:
  assumes "faultIn d = None"
  shows "processCandidate cfg now opts c d =
     Inr (createdUnit cfg now opts c d,
          d\<lparr>memories := memories d @ [persistedUnit cfg now opts c d]\<rparr>)"
proof -
  let ?u = "createdUnit cfg now opts c d"
  have fresh: "\<And>m. m \<in> set (memories d) \<Longrightarrow> unit_id m \<noteq> unit_id ?u"
    by (simp add: createdUnit_def unit_id_newUnit freshId_fresh)
  have upd: "updateUnit (unit_id ?u) f (memories d @ [?u]) = memories d @ [f ?u]" for f
    using fresh by (rule updateUnit_fresh)
  have feats: "calculateFeatures c d = Inr (intakeFeatures c (memories d), d)"
    using assms
    by (simp add: calculateFeatures_def calculateNovelty_def db_getTopMemories_def call_noFault
        andThen_Inr intakeFeatures_def)
  have interf: "detectInterference c d =
      Inr (interferenceAgainst (topMemories 50 (memories d)) c, d)"
    using assms
    by (simp add: detectInterference_def db_getTopMemories_def call_noFault andThen_Inr)
  have create: "db_createMemory now st (c_classification c) (c_summary c) (c_sourceEventIds c)
        (createFeatures opts c (intakeFeatures c (memories d))) d =
      Inr (newUnit d now st (c_classification c) (c_summary c) (c_sourceEventIds c)
             (createFeatures opts c (intakeFeatures c (memories d))),
           d\<lparr>memories := memories d @
              [newUnit d now st (c_classification c) (c_summary c) (c_sourceEventIds c)
                 (createFeatures opts c (intakeFeatures c (memories d)))]\<rparr>)" for st
    using assms by (simp add: db_createMemory_def call_noFault)
  show ?thesis
  proof (cases "interferenceAgainst (topMemories 50 (memories d)) c > 0")
    case True
    then show ?thesis
      using assms upd
      by (simp add: processCandidate_def Let_def feats interf create andThen_Inr
          db_updateMemoryStrength_def call_noFault persistedUnit_def
          createdUnit_def [symmetric])
  next
    case False
    then show ?thesis
      using assms
      by (simp add: processCandidate_def Let_def feats interf create andThen_Inr
          persistedUnit_def createdUnit_def [symmetric])
  qed
qed

lemma processCandidates_Cons_noFault:
  assumes "faultIn d = None"
  shows "processCandidates cfg now opts (c # cs) d =
     (case processCandidates cfg now opts cs
             (d\<lparr>memories := memories d @ [persistedUnit cfg now opts c d]\<rparr>) of
        Inl e \<Rightarrow> Inl e
      | Inr (us, d2) \<Rightarrow> Inr (createdUnit cfg now opts c d # us, d2))"
  by (simp add: processCandidate_noFault [OF assms])

lemma processCandidates_single_noFault:
  assumes "faultIn d = None"
  shows "processCandidates cfg now opts [c] d =
     Inr ([createdUnit cfg now opts c d],
          d\<lparr>memories := memories d @ [persistedUnit cfg now opts c d]\<rparr>)"
  by (simp add: processCandidate_noFault [OF assms])

lemma processCandidates_append:
  "processCandidates cfg now opts (cs1 @ cs2) d =
     (case processCandidates cfg now opts cs1 d of
        Inl e \<Rightarrow> Inl e
      | Inr (us, d1) \<Rightarrow>
          (case processCandidates cfg now opts cs2 d1 of
             Inl e \<Rightarrow> Inl e
           | Inr (vs, d2) \<Rightarrow> Inr (us @ vs, d2)))"
proof (induction cs1 arbitrary: d)
  case Nil
  show ?case by (simp split: sum.splits)
next
  case (Cons c cs)
  show ?case
    by (simp add: Cons.IH split: sum.splits prod.splits)
qed

lemma interferenceAgainst_nonneg: "0 \<le> interferenceAgainst ms c"
proof -
  have "0 \<le> a \<Longrightarrow> 0 \<le> fold (\<lambda>mem interf.
            (let topicSimilarity = calculateTextSimilarity (c_summary c) (summary mem)
             in if topicSimilarity > 0.3 \<and> topicSimilarity < 0.8
                then max interf (topicSimilarity * 0.5) else interf)) ms a" for a :: real
    by (induction ms arbitrary: a) (simp_all add: Let_def)
  then show ?thesis by (simp add: interferenceAgainst_def)
qed

lemma createdUnit_fields:
  "novelty (createdUnit cfg now opts c d) = noveltyAgainst (topMemories 50 (memories d)) c \<and>
   store (createdUnit cfg now opts c d) =
     (if c_classification c \<in> set (autoPromoteToLtm cfg) then LTM else STM) \<and>
   projectScope (createdUnit cfg now opts c d) =
     (if isUserLevelClassification (c_classification c) then None
      else if truthy (o_projectScope opts) then o_projectScope opts else None) \<and>
   strength (createdUnit cfg now opts c d) =
     initialStrength d (if c_classification c \<in> set (autoPromoteToLtm cfg) then LTM else STM)
       (c_classification c) (c_summary c) (createFeatures opts c (intakeFeatures c (memories d)))"
  by (simp add: createdUnit_def newUnit_def createFeatures_def intakeFeatures_def truthy_def
      Let_def)

lemma persistedUnit_cases:
  "(interferenceAgainst (topMemories 50 (memories d)) c = 0 \<longrightarrow>
      persistedUnit cfg now opts c d = createdUnit cfg now opts c d) \<and>
   (interferenceAgainst (topMemories 50 (memories d)) c > 0 \<longrightarrow>
      persistedUnit cfg now opts c d =
        (createdUnit cfg now opts c d)
          \<lparr>strength := calculateStrength (scoringWeights cfg) (intakeFeatures c (memories d)) *
             (1 - interferenceAgainst (topMemories 50 (memories d)) c * 0.2)\<rparr>)"
  by (simp add: persistedUnit_def)

lemmas intake_eval = processCandidate_def calculateFeatures_def calculateNovelty_def
  detectInterference_def noveltyAgainst_def interferenceAgainst_def createFeatures_def
  isUserLevelClassification_def truthy_def extractTags_def

text \<open>
  C10.  On a store that does not fail, \<open>processCandidates\<close> leaves for a candidate one new
  row.  The detected interference is never negative.  When it is 0 no strength is
  written after the creation: the row is the unit as \<open>createMemory\<close> made it, with the
  strength \<open>createMemory\<close> assigned, and the strength computed from the feature vector
  is not used.  Only when it is above 0 is the strength of the row overwritten, with
  strength * (1 - interference * 0.2), and the row differs from the created unit in no
  other field.
\<close>

theorem processCandidates_strength_write:
  assumes "faultIn d = None"
  shows "processCandidates cfg now opts (c # cs) d =
           (case processCandidates cfg now opts cs
                   (d\<lparr>memories := memories d @ [persistedUnit cfg now opts c d]\<rparr>) of
              Inl e \<Rightarrow> Inl e
            | Inr (us, d2) \<Rightarrow> Inr (createdUnit cfg now opts c d # us, d2)) \<and>
         0 \<le> interferenceAgainst (topMemories 50 (memories d)) c \<and>
         (interferenceAgainst (topMemories 50 (memories d)) c = 0 \<longrightarrow>
            persistedUnit cfg now opts c d = createdUnit cfg now opts c d) \<and>
         (interferenceAgainst (topMemories 50 (memories d)) c > 0 \<longrightarrow>
            persistedUnit cfg now opts c d =
              (createdUnit cfg now opts c d)
                \<lparr>strength :=
                   calculateStrength (scoringWeights cfg) (intakeFeatures c (memories d)) *
                   (1 - interferenceAgainst (topMemories 50 (memories d)) c * 0.2)\<rparr>) \<and>
         strength (createdUnit cfg now opts c d) =
           initialStrength d
             (if c_classification c \<in> set (autoPromoteToLtm cfg) then LTM else STM)
             (c_classification c) (c_summary c)
             (createFeatures opts c (intakeFeatures c (memories d)))"
  using processCandidates_Cons_noFault [OF assms, of cfg now opts c cs]
    interferenceAgainst_nonneg [of "topMemories 50 (memories d)" c]
    persistedUnit_cases [of d c cfg now opts]
    createdUnit_fields [of cfg now opts c d]
  by (intro conjI) simp_all

lemma dog_cat_similarity: "calculateTextSimilarity ''the dog is on'' ''the cat is on'' = 3 / 5"
  by (simp add: calculateTextSimilarity_def string_eval)

lemma dog_interference:
  "interferenceAgainst (topMemories 50 (memories catDb)) dogCandidate = 0.3"
  by (simp add: interferenceAgainst_def topMemories_def catDb_def catUnit_def dogCandidate_def
      example_eval dog_cat_similarity Let_def)

theorem processCandidates_strength_write_witness:
  "faultIn catDb = None \<and>
   interferenceAgainst (topMemories 50 (memories catDb)) dogCandidate = 0.3 \<and>
   persistedUnit exampleConfig 0 noOptions dogCandidate catDb =
     (createdUnit exampleConfig 0 noOptions dogCandidate catDb)
       \<lparr>strength :=
          calculateStrength (scoringWeights exampleConfig)
            (intakeFeatures dogCandidate (memories catDb)) * (1 - 0.3 * 0.2)\<rparr> \<and>
   strength (createdUnit exampleConfig 0 noOptions dogCandidate catDb) = 0.5 \<and>
   processCandidates exampleConfig 0 noOptions [dogCandidate] catDb =
     Inr ([createdUnit exampleConfig 0 noOptions dogCandidate catDb],
          catDb\<lparr>memories := memories catDb @
            [persistedUnit exampleConfig 0 noOptions dogCandidate catDb]\<rparr>)"
proof -
  have h: "faultIn catDb = None"
    by (simp add: catDb_def emptyDb_def)
  note t = processCandidates_strength_write [OF h, of exampleConfig 0 noOptions dogCandidate "[]"]
  have p: "persistedUnit exampleConfig 0 noOptions dogCandidate catDb =
     (createdUnit exampleConfig 0 noOptions dogCandidate catDb)
       \<lparr>strength :=
          calculateStrength (scoringWeights exampleConfig)
            (intakeFeatures dogCandidate (memories catDb)) * (1 - 0.3 * 0.2)\<rparr>"
    using t [THEN conjunct2, THEN conjunct2, THEN conjunct2, THEN conjunct1]
    by (simp add: dog_interference)
  have s: "strength (createdUnit exampleConfig 0 noOptions dogCandidate catDb) = 0.5"
    using t [THEN conjunct2, THEN conjunct2, THEN conjunct2, THEN conjunct2]
    by (simp add: catDb_def emptyDb_def)
  have r: "processCandidates exampleConfig 0 noOptions [dogCandidate] catDb =
     Inr ([createdUnit exampleConfig 0 noOptions dogCandidate catDb],
          catDb\<lparr>memories := memories catDb @
            [persistedUnit exampleConfig 0 noOptions dogCandidate catDb]\<rparr>)"
    using t [THEN conjunct1] by simp
  show ?thesis
    by (intro conjI) (rule h, rule dog_interference, rule p, rule s, rule r)
qed

lemma tabs_self_similarity:
  "calculateTextSimilarity ''user prefers tabs over spaces'' ''user prefers tabs over spaces'' = 1"
  by (simp add: calculateTextSimilarity_def string_eval)

lemma tabs_alone:
  "map_option (map novelty)
     (returned (processCandidates exampleConfig 0 noOptions [tabsCandidate] emptyDb)) = Some [1]"
  by (simp add: returned_def intake_eval db_eval example_eval tabsCandidate_def Let_def)

lemma tabs_twice:
  "map_option (map novelty)
     (returned (processCandidates exampleConfig 0 noOptions [tabsCandidate, tabsCandidate] emptyDb)) =
   Some [1, 0]"
  by (simp add: returned_def intake_eval db_eval example_eval tabsCandidate_def Let_def
      tabs_self_similarity)

text \<open>
  C2, as stated, fails.  The same candidate twice, on the empty store: processed alone it
  gets novelty 1; processed after its copy in the same call it gets novelty 0, because
  the unit created for the copy is among the memories it is compared with.
\<close>

theorem processCandidates_isolation_counterexample:
  "map_option (map novelty)
     (returned (processCandidates exampleConfig 0 noOptions [tabsCandidate, tabsCandidate] emptyDb)) =
     Some [1, 0] \<and>
   map_option (map novelty)
     (returned (processCandidates exampleConfig 0 noOptions [tabsCandidate] emptyDb)) = Some [1]"
  by (simp only: tabs_alone tabs_twice)

text \<open>
  C2, amended.  The candidates of one call are processed one after the other, each on the
  store the candidates before it have left: processing \<open>cs1 @ cs2\<close> is processing \<open>cs1\<close>
  and then \<open>cs2\<close> on the resulting store.  So the novelty of a candidate (and with it
  its interference and strength) is computed against the top memories of the store as
  it is when the candidate is reached, units created earlier in the same call included.
  The store (stm or ltm) and the scope of its unit depend on the candidate, the options
  and the configuration only.
\<close>

theorem processCandidates_sequential:
  "processCandidates cfg now opts (cs1 @ cs2) d =
     (case processCandidates cfg now opts cs1 d of
        Inl e \<Rightarrow> Inl e
      | Inr (us, d1) \<Rightarrow>
          (case processCandidates cfg now opts cs2 d1 of
             Inl e \<Rightarrow> Inl e
           | Inr (vs, d2) \<Rightarrow> Inr (us @ vs, d2))) \<and>
   (faultIn d = None \<longrightarrow>
      processCandidates cfg now opts [c] d =
        Inr ([createdUnit cfg now opts c d],
             d\<lparr>memories := memories d @ [persistedUnit cfg now opts c d]\<rparr>)) \<and>
   novelty (createdUnit cfg now opts c d) = noveltyAgainst (topMemories 50 (memories d)) c \<and>
   store (createdUnit cfg now opts c d) =
     (if c_classification c \<in> set (autoPromoteToLtm cfg) then LTM else STM) \<and>
   projectScope (createdUnit cfg now opts c d) =
     (if isUserLevelClassification (c_classification c) then None
      else if truthy (o_projectScope opts) then o_projectScope opts else None)"
  using processCandidates_append [of cfg now opts cs1 cs2 d]
    processCandidates_single_noFault [of d cfg now opts c]
    createdUnit_fields [of cfg now opts c d]
  by (intro conjI impI) simp_all

theorem processCandidates_sequential_witness:
  "faultIn emptyDb = None \<and>
   processCandidates exampleConfig 0 noOptions [tabsCandidate] emptyDb =
     Inr ([createdUnit exampleConfig 0 noOptions tabsCandidate emptyDb],
          emptyDb\<lparr>memories := memories emptyDb @
            [persistedUnit exampleConfig 0 noOptions tabsCandidate emptyDb]\<rparr>) \<and>
   novelty (createdUnit exampleConfig 0 noOptions tabsCandidate emptyDb) = 1 \<and>
   store (createdUnit exampleConfig 0 noOptions tabsCandidate emptyDb) = LTM \<and>
   projectScope (createdUnit exampleConfig 0 noOptions tabsCandidate emptyDb) = None"
proof -
  have h: "faultIn emptyDb = None"
    by (simp add: emptyDb_def)
  note t = processCandidates_sequential
    [of exampleConfig 0 noOptions "[tabsCandidate]" "[]" emptyDb tabsCandidate]
  have r: "processCandidates exampleConfig 0 noOptions [tabsCandidate] emptyDb =
     Inr ([createdUnit exampleConfig 0 noOptions tabsCandidate emptyDb],
          emptyDb\<lparr>memories := memories emptyDb @
            [persistedUnit exampleConfig 0 noOptions tabsCandidate emptyDb]\<rparr>)"
    using t [THEN conjunct2, THEN conjunct1] h by simp
  have n: "novelty (createdUnit exampleConfig 0 noOptions tabsCandidate emptyDb) = 1"
    using t [THEN conjunct2, THEN conjunct2, THEN conjunct1]
    by (simp add: noveltyAgainst_def topMemories_def emptyDb_def)
  have s: "store (createdUnit exampleConfig 0 noOptions tabsCandidate emptyDb) = LTM"
    using t [THEN conjunct2, THEN conjunct2, THEN conjunct2, THEN conjunct1]
    by (simp add: tabsCandidate_def exampleConfig_def)
  have p: "projectScope (createdUnit exampleConfig 0 noOptions tabsCandidate emptyDb) = None"
    using t [THEN conjunct2, THEN conjunct2, THEN conjunct2, THEN conjunct2]
    by (simp add: tabsCandidate_def isUserLevelClassification_def)
  show ?thesis
    by (intro conjI) (rule h, rule r, rule n, rule s, rule p)
qed

section \<open>Ranking by relevance\<close>

lemma splitFrom_nonempty: "splitFrom b s \<noteq> []"
  by (induction s arbitrary: b) (auto split: list.splits)

text \<open>Every piece of the split is a substring of the text.\<close>

lemma splitFrom_False_prefix: "splitFrom False s = w # ws \<Longrightarrow> prefix w s"
proof (induction s arbitrary: w ws)
  case Nil
  then show ?case by simp
next
  case (Cons c cs)
  show ?case
  proof (cases "isWhitespace c")
    case True
    with Cons.prems show ?thesis by simp
  next
    case False
    obtain w0 ws0 where s: "splitFrom False cs = w0 # ws0"
      using splitFrom_nonempty [of False cs] by (cases "splitFrom False cs") auto
    with False Cons.prems have "w = c # w0" by simp
    with Cons.IH [OF s] show ?thesis by simp
  qed
qed

lemma splitFrom_sublist: "w \<in> set (splitFrom b s) \<Longrightarrow> sublist w s"
proof (induction s arbitrary: b w)
  case Nil
  then show ?case by simp
next
  case (Cons c cs)
  show ?case
  proof (cases "isWhitespace c")
    case True
    with Cons.prems have "w = [] \<or> w \<in> set (splitFrom True cs)"
      by (auto split: if_splits)
    then show ?thesis
    proof
      assume "w = []"
      then show ?thesis by simp
    next
      assume "w \<in> set (splitFrom True cs)"
      from Cons.IH [OF this] show ?thesis by (simp add: sublist_Cons_right)
    qed
  next
    case False
    obtain w0 ws0 where s: "splitFrom False cs = w0 # ws0"
      using splitFrom_nonempty [of False cs] by (cases "splitFrom False cs") auto
    with False Cons.prems have "w = c # w0 \<or> w \<in> set ws0" by auto
    then show ?thesis
    proof
      assume w: "w = c # w0"
      from splitFrom_False_prefix [OF s] have "prefix (c # w0) (c # cs)" by simp
      with w show ?thesis by (simp add: sublist_Cons_right)
    next
      assume "w \<in> set ws0"
      with s have "w \<in> set (splitFrom False cs)" by simp
      from Cons.IH [OF this] show ?thesis by (simp add: sublist_Cons_right)
    qed
  qed
qed

lemma wordSet_keywords: "wordSet q = set (spec_keywords q)"
  by (auto simp: wordSet_def spec_keywords_def)

lemma wordSet_sublist: "w \<in> wordSet s \<Longrightarrow> sublist w (toLowerCase s)"
  by (auto simp: wordSet_def splitWs_def dest: splitFrom_sublist)

text \<open>A unit the query matches nothing of has text similarity 0 and no tag bonus.\<close>

lemma unrelated_textSimilarity:
  assumes "unrelatedTo m q"
  shows "spec_textSimilarity (summary m) q = 0"
proof -
  have no: "\<And>kw. kw \<in> set (spec_keywords q) \<Longrightarrow> \<not> sublist kw (toLowerCase (summary m))"
    using assms by (auto simp: unrelatedTo_def list_all_iff)
  have "wordSet (summary m) \<inter> wordSet q = {}"
    using no wordSet_sublist [of _ "summary m"] by (auto simp: wordSet_keywords)
  then have j: "jaccardIndex (wordSet (summary m)) (wordSet q) = 0"
    by (simp add: jaccardIndex_def)
  have "filter (\<lambda>kw. sublist kw (toLowerCase (summary m))) (spec_keywords q) = []"
    using no by (simp add: filter_empty_conv)
  with j show ?thesis by (simp add: spec_textSimilarity_def)
qed

lemma unrelated_tagBonus:
  assumes "unrelatedTo m q"
  shows "spec_tagBonus (tags m) q = 0"
proof -
  have "filter (\<lambda>tag. \<exists>kw \<in> set (spec_keywords q). sublist kw (toLowerCase tag)) (tags m) = []"
    using assms by (auto simp: unrelatedTo_def list_all_iff filter_empty_conv)
  then show ?thesis by (simp add: spec_tagBonus_def)
qed

lemma spec_recencyBonus_le: "0 \<le> h \<Longrightarrow> spec_recencyBonus h \<le> 0.05"
  by (simp add: spec_recencyBonus_def max_def)

lemma unrelated_relevance_eq:
  assumes "unrelatedTo m q"
  shows "calculateRelevance now m q = min 1 (spec_recencyBonus ((now - createdAt m) / 3600000))"
  by (simp add: calculateRelevance_unfold unrelated_textSimilarity [OF assms]
      unrelated_tagBonus [OF assms])

lemma unrelated_relevance:
  assumes "unrelatedTo m q" and "createdAt m \<le> now"
  shows "calculateRelevance now m q \<le> 0.05"
proof -
  have "0 \<le> (now - createdAt m) / 3600000" using assms(2) by simp
  from spec_recencyBonus_le [OF this]
  show ?thesis
    by (simp add: unrelated_relevance_eq [OF assms(1)])
qed

lemma auth_relevance:
  assumes "summary m = authSummary" and "strength m = 0.4"
  shows "0.98 \<le> calculateRelevance now m authQuery"
proof -
  have "0 \<le> spec_tagBonus (tags m) authQuery + spec_recencyBonus ((now - createdAt m) / 3600000)"
    using spec_tagBonus_nonneg [of "tags m" authQuery]
      spec_recencyBonus_nonneg [of "(now - createdAt m) / 3600000"] by simp
  then show ?thesis
    by (simp add: calculateRelevance_unfold assms auth_textSimilarity)
qed

text \<open>In a list sorted by a key, what has a smaller key stands before.\<close>

lemma sorted_before:
  assumes "sorted (map k L)" and "L = xs @ b # ys" and "a \<in> set L" and "k a < (k b :: real)"
  shows "a \<in> set xs"
proof -
  from assms(1,2) have "\<forall>y \<in> set ys. k b \<le> k y"
    by (simp add: sorted_append)
  with assms(4) have "a \<notin> set ys" by force
  moreover from assms(4) have "a \<noteq> b" by auto
  ultimately show ?thesis using assms(2,3) by auto
qed

lemma rank_above:
  assumes "A \<in> set ms"
    and "rankByTextSimilarity now ms q = us @ C # vs"
    and "calculateRelevance now C q < calculateRelevance now A q"
  shows "A \<in> set us"
proof -
  let ?scored = "map (\<lambda>mem. (mem, calculateRelevance now mem q)) ms"
  let ?L = "sort_key (\<lambda>s. - snd s) ?scored"
  from assms(2) have "map fst ?L = us @ C # vs"
    by (simp add: rankByTextSimilarity_def)
  then obtain us' p vs' where L: "?L = us' @ p # vs'" and us: "map fst us' = us" and p: "fst p = C"
    by (auto simp: map_eq_append_conv map_eq_Cons_conv)
  have "p \<in> set ?scored" using L by (metis in_set_conv_decomp set_sort)
  with p have sp: "snd p = calculateRelevance now C q" by auto
  have inL: "(A, calculateRelevance now A q) \<in> set ?L" using assms(1) by auto
  have "sorted (map (\<lambda>s. - snd s) ?L)" by (rule sorted_sort_key)
  from sorted_before [OF this L inL] sp assms(3)
  have "(A, calculateRelevance now A q) \<in> set us'" by simp
  then have "A \<in> set (map fst us')" by force
  with us show ?thesis by simp
qed

lemma retrieveIndex_auth_noFault:
  assumes "faultIn d = None"
  shows "retrieveIndex cfg now authIndexQuery d =
     Inr (map (toIndexItem now (Some authQuery))
            (take 5 (rankByTextSimilarity now (topMemories 50 (memories d)) authQuery)), d)"
proof -
  have q: "authQuery \<noteq> []" by (simp add: authQuery_def)
  then show ?thesis
    using assms
    by (simp add: retrieveIndex_def authIndexQuery_def getFilteredMemories_def
        db_getTopMemories_def call_noFault andThen_Inr slice0_def Let_def)
qed

lemma relevant_above_unrelated:
  assumes A: "A \<in> set ms" "summary A = authSummary" "strength A = 0.4"
    and B: "unrelatedTo B authQuery" "createdAt B \<le> now"
    and items: "map (toIndexItem now (Some authQuery))
                  (take n (rankByTextSimilarity now ms authQuery)) =
                xs @ toIndexItem now (Some authQuery) B # ys"
  shows "toIndexItem now (Some authQuery) A \<in> set xs"
proof -
  let ?f = "toIndexItem now (Some authQuery)"
  let ?R = "rankByTextSimilarity now ms authQuery"
  have q: "authQuery \<noteq> []" by (simp add: authQuery_def)
  from items obtain us C vs where
    t: "take n ?R = us @ C # vs" and us: "map ?f us = xs" and C: "?f C = ?f B"
    by (auto simp: map_eq_append_conv map_eq_Cons_conv)
  from C have "relevanceScore (?f C) = relevanceScore (?f B)" by simp
  with q have "calculateRelevance now C authQuery = calculateRelevance now B authQuery"
    by (simp add: toIndexItem_def)
  with unrelated_relevance [OF B] auth_relevance [OF A(2,3), of now]
  have lt: "calculateRelevance now C authQuery < calculateRelevance now A authQuery"
    by simp
  have "?R = us @ C # (vs @ drop n ?R)"
    using t append_take_drop_id [of n ?R] by simp
  from rank_above [OF A(1) this lt] have "A \<in> set us" .
  with us show ?thesis by auto
qed

lemma ii_id_toIndexItem: "map ii_id (map (toIndexItem now q) ms) = map unit_id ms"
  by (simp add: toIndexItem_def)

lemma authUnit_relevance: "calculateRelevance 360000000 authUnit authQuery = 0.98"
proof -
  have s: "summary authUnit = authSummary" "strength authUnit = 0.4"
    "tags authUnit = [''decision'']" "createdAt authUnit = 0"
    by (simp_all add: authUnit_def exampleUnit_def)
  show ?thesis
    by (simp add: calculateRelevance_unfold s auth_textSimilarity auth_no_tag
        spec_recencyBonus_def)
qed

text \<open>The unit of the counterexample: both keywords inside longer words, one in the tag.\<close>

lemma debug_lower:
  "toLowerCase (summary debugUnit) = ''debugging reauthentication''"
  by (simp add: debugUnit_def exampleUnit_def toLowerCase_def toLowerChar_def)

lemma debug_no_common_word: "tokenSet (summary debugUnit) \<inter> tokenSet authQuery = {}"
  by (simp add: tokenSet_def debugUnit_def exampleUnit_def authQuery_def string_eval)

lemma debug_jaccard:
  "jaccardSimilarity (toLowerCase (summary debugUnit)) (toLowerCase authQuery) = 0"
  by (simp add: jaccardSimilarity_def debugUnit_def exampleUnit_def authQuery_def string_eval)

lemma debug_hits:
  "filter (\<lambda>kw. sublist kw (toLowerCase (summary debugUnit))) [''authentication'', ''bug''] =
   [''authentication'', ''bug'']"
  unfolding debug_lower by (simp add: sublist_Cons_right)

lemma debug_textSimilarity: "spec_textSimilarity (summary debugUnit) authQuery = 1 / 2"
  unfolding spec_textSimilarity_def authQuery_keywords debug_hits
    jaccardSimilarity_wordSet [symmetric] debug_jaccard
  by simp

lemma debug_tag: "spec_tagBonus (tags debugUnit) authQuery = 0.15"
  unfolding spec_tagBonus_def authQuery_keywords
  by (simp add: debugUnit_def exampleUnit_def toLowerCase_def toLowerChar_def
      sublist_Cons_right)

lemma debugUnit_relevance: "calculateRelevance 360000000 debugUnit authQuery = 1"
proof -
  have s: "strength debugUnit = 0.9" "createdAt debugUnit = 360000000"
    by (simp_all add: debugUnit_def exampleUnit_def)
  show ?thesis
    by (simp add: calculateRelevance_unfold debug_textSimilarity debug_tag s spec_recencyBonus_def)
qed

lemma debugDb_top: "topMemories 50 (memories debugDb) = [debugUnit, authUnit]"
  by (simp add: topMemories_def debugDb_def emptyDb_def debugUnit_def authUnit_def
      exampleUnit_def)

lemma debugDb_ranked:
  "rankByTextSimilarity 360000000 [debugUnit, authUnit] authQuery = [debugUnit, authUnit]"
  unfolding rankByTextSimilarity_def Let_def
  by (simp add: debugUnit_relevance authUnit_relevance)

lemma debugDb_noFault: "faultIn debugDb = None"
  by (simp add: debugDb_def emptyDb_def)

lemma debugDb_index:
  "map_option (map ii_id) (returned (retrieveIndex exampleConfig 360000000 authIndexQuery debugDb)) =
   Some [2, 1]"
  unfolding retrieveIndex_auth_noFault [OF debugDb_noFault] debugDb_top debugDb_ranked
  by (simp add: returned_def toIndexItem_def debugUnit_def authUnit_def exampleUnit_def)

text \<open>
  C7, as stated, fails.  Unit 1 has the summary and the strength 0.4 of the scenario;
  unit 2 has strength 0.9 and a summary that shares no word with the query
  ("debugging reauthentication"), but both keywords occur inside its words and one
  inside its tag ("bugfix").  \<open>retrieveIndex\<close> with the query "authentication bug" and
  limit 5 returns unit 2 first.
\<close>

theorem retrieveIndex_no_common_word_counterexample:
  "summary authUnit = authSummary \<and> strength authUnit = 0.4 \<and> strength debugUnit = 0.9 \<and>
   tokenSet (summary debugUnit) \<inter> tokenSet authQuery = {} \<and>
   map_option (map ii_id)
     (returned (retrieveIndex exampleConfig 360000000 authIndexQuery debugDb)) = Some [2, 1]"
proof -
  have "summary authUnit = authSummary" "strength authUnit = 0.4" "strength debugUnit = 0.9"
    by (simp_all add: authUnit_def debugUnit_def exampleUnit_def)
  then show ?thesis
    by (intro conjI) (assumption, assumption, assumption, rule debug_no_common_word,
      rule debugDb_index)
qed

text \<open>
  C7, amended.  Let the pool contain unit A with the summary "Fixed authentication bug
  in login flow" and strength 0.4, and let B be a unit of any strength (0.9 included),
  not created after the time of the query, such that no keyword of the query occurs as
  a substring of its summary or of one of its tags.  Then \<open>retrieveIndex\<close> with the query
  "authentication bug" and limit 5 returns, and wherever the item of B stands in the
  result, the item of A stands before it.
\<close>

theorem retrieveIndex_relevant_above_unrelated:
  assumes "faultIn d = None"
    and "A \<in> set (topMemories 50 (memories d))"
    and "summary A = authSummary" and "strength A = 0.4"
    and "unrelatedTo B authQuery" and "createdAt B \<le> now"
  shows "(\<exists>items. retrieveIndex cfg now authIndexQuery d = Inr (items, d)) \<and>
         (\<forall>items d' xs ys.
            retrieveIndex cfg now authIndexQuery d = Inr (items, d') \<and>
            items = xs @ toIndexItem now (Some authQuery) B # ys \<longrightarrow>
            toIndexItem now (Some authQuery) A \<in> set xs)"
proof (intro conjI allI impI)
  show "\<exists>items. retrieveIndex cfg now authIndexQuery d = Inr (items, d)"
    by (simp add: retrieveIndex_auth_noFault [OF assms(1)])
next
  fix items d' xs ys
  assume a: "retrieveIndex cfg now authIndexQuery d = Inr (items, d') \<and>
             items = xs @ toIndexItem now (Some authQuery) B # ys"
  then have r: "retrieveIndex cfg now authIndexQuery d = Inr (items, d')"
    and i: "items = xs @ toIndexItem now (Some authQuery) B # ys" by simp_all
  from r [unfolded retrieveIndex_auth_noFault [OF assms(1)]]
  have "items = map (toIndexItem now (Some authQuery))
      (take 5 (rankByTextSimilarity now (topMemories 50 (memories d)) authQuery))"
    by auto
  with i have "map (toIndexItem now (Some authQuery))
               (take 5 (rankByTextSimilarity now (topMemories 50 (memories d)) authQuery)) =
             xs @ toIndexItem now (Some authQuery) B # ys"
    by simp
  from relevant_above_unrelated [OF assms(2,3,4,5,6) this]
  show "toIndexItem now (Some authQuery) A \<in> set xs" .
qed

text \<open>The scenario: the relevant unit and a strong unit on another subject.\<close>

lemma deploy_unrelated: "unrelatedTo deployUnit authQuery"
  unfolding unrelatedTo_def authQuery_keywords
  by (simp add: deployUnit_def exampleUnit_def toLowerCase_def toLowerChar_def
      sublist_Cons_right)

lemma deployUnit_relevance: "calculateRelevance 360000000 deployUnit authQuery = 0"
  unfolding unrelated_relevance_eq [OF deploy_unrelated]
  by (simp add: spec_recencyBonus_def deployUnit_def exampleUnit_def)

lemma deployDb_top: "topMemories 50 (memories deployDb) = [deployUnit, authUnit]"
  by (simp add: topMemories_def deployDb_def emptyDb_def deployUnit_def authUnit_def
      exampleUnit_def)

lemma deployDb_ranked:
  "rankByTextSimilarity 360000000 [deployUnit, authUnit] authQuery = [authUnit, deployUnit]"
  unfolding rankByTextSimilarity_def Let_def
  by (simp add: deployUnit_relevance authUnit_relevance)

lemma deployDb_noFault: "faultIn deployDb = None"
  by (simp add: deployDb_def emptyDb_def)

lemma deployDb_index:
  "retrieveIndex exampleConfig 360000000 authIndexQuery deployDb =
   Inr ([toIndexItem 360000000 (Some authQuery) authUnit,
         toIndexItem 360000000 (Some authQuery) deployUnit], deployDb)"
  unfolding retrieveIndex_auth_noFault [OF deployDb_noFault] deployDb_top deployDb_ranked
  by simp

theorem retrieveIndex_relevant_above_unrelated_witness:
  "faultIn deployDb = None \<and>
   authUnit \<in> set (topMemories 50 (memories deployDb)) \<and>
   summary authUnit = authSummary \<and> strength authUnit = 0.4 \<and>
   strength deployUnit = 0.9 \<and>
   unrelatedTo deployUnit authQuery \<and> createdAt deployUnit \<le> 360000000 \<and>
   retrieveIndex exampleConfig 360000000 authIndexQuery deployDb =
     Inr ([toIndexItem 360000000 (Some authQuery) authUnit] @
          toIndexItem 360000000 (Some authQuery) deployUnit # [], deployDb) \<and>
   toIndexItem 360000000 (Some authQuery) authUnit \<in>
     set [toIndexItem 360000000 (Some authQuery) authUnit]"
proof -
  have h2: "authUnit \<in> set (topMemories 50 (memories deployDb))"
    by (simp add: deployDb_top)
  have h3: "summary authUnit = authSummary" and h4: "strength authUnit = 0.4"
    by (simp_all add: authUnit_def exampleUnit_def)
  have h5: "strength deployUnit = 0.9" and h6: "createdAt deployUnit \<le> 360000000"
    by (simp_all add: deployUnit_def exampleUnit_def)
  have r: "retrieveIndex exampleConfig 360000000 authIndexQuery deployDb =
     Inr ([toIndexItem 360000000 (Some authQuery) authUnit] @
          toIndexItem 360000000 (Some authQuery) deployUnit # [], deployDb)"
    by (simp add: deployDb_index)
  have c: "toIndexItem 360000000 (Some authQuery) authUnit \<in>
     set [toIndexItem 360000000 (Some authQuery) authUnit]"
    by (rule retrieveIndex_relevant_above_unrelated
          [OF deployDb_noFault h2 h3 h4 deploy_unrelated h6, of exampleConfig,
           THEN conjunct2, rule_format, OF conjI, OF r refl])
  show ?thesis
    by (intro conjI)
      (rule deployDb_noFault, rule h2, rule h3, rule h4, rule h5, rule deploy_unrelated,
       rule h6, rule r, rule c)
qed

end
